theory Spec2Isabelle
  imports Main "HOL-Library.AList" "HOL-Library.Sublist"
begin

section \<open>Python values, errors and the adapter's state\<close>

text \<open>
  The configuration handed to \<open>DataFlowBackend\<close> is an untyped nested Python mapping.
  Its values are modelled by \<open>pyval\<close>; a \<open>dict\<close> is an association list in insertion
  order whose lookups go through \<open>map_of\<close>, so it behaves as a mapping with string keys.
\<close>

datatype pyval =
    PNone
  | PBool bool
  | PInt int
  | PStr string
  | PList "pyval list"
  | PDict "(string \<times> pyval) list"

text \<open>Every exception the module can raise or let through is a value of \<open>error\<close>.\<close>

datatype error =
    KeyError string
  | ValueError string
  | TypeError
  | AttributeError
  | NotImplementedError string
  | UnboundLocalError string
  | JSONDecodeError
  | ProviderError string

text \<open>
  What the outside world sees: entering and leaving the \<open>AuthContext\<close>, and the calls
  on the provider's resource API (\<open>Job\<close>, \<open>DataFlowRun\<close>).
\<close>

datatype event =
    AuthEnter pyval pyval
  | AuthExit
  | JobFromDataflowJob pyval
  | JobCreate pyval pyval pyval
  | JobRun string
  | JobDelete string
  | RunFromOcid pyval
  | RunDelete string
  | RunWatch string

text \<open>
  The collaborators that are not part of this module are parameters of the model.
  \<open>respond\<close> is the provider: given the events so far and the call being made, it
  raises or returns the identifier of the resource the call yields. \<open>json_loads\<close> is
  the standard library's \<open>json.loads\<close>. \<open>create_signer\<close> and \<open>client_factory\<close>
  are what the constructor calls; the next four fields are the template builders that
  only \<open>init\<close> uses (\<open>DataFlow(**kwargs).init()\<close>, \<open>DataFlowRuntime().type\<close>,
  \<open>DataFlowRuntimeFactory.get_runtime(key).init()\<close> and \<open>Job.to_yaml\<close>); \<open>init\<close> hands
  them the entries of the infrastructure mapping as keyword arguments, not the mapping.

  \<open>run\<close> is different: at line 154 it hands the infrastructure mapping itself, the
  object stored in the configuration, to \<open>DataFlow(spec=infra)\<close>, and the Job built from
  it is what \<open>create\<close> and \<open>run\<close> are then called on. The library may change that
  mapping in place, as a constructor that renames keys does. \<open>held_spec\<close> is this
  effect: given the events so far and the mapping as the library finds it, the mapping as
  the library leaves it.
\<close>

record extern =
  respond :: "event list \<Rightarrow> event \<Rightarrow> error + string"
  json_loads :: "pyval \<Rightarrow> error + pyval"
  create_signer :: "pyval \<Rightarrow> pyval \<Rightarrow> pyval \<Rightarrow> error + pyval"
  client_factory :: "pyval \<Rightarrow> error + unit"
  dataflow_init :: "pyval \<Rightarrow> error + pyval"
  default_runtime_type :: pyval
  runtime_template :: "pyval \<Rightarrow> error + pyval"
  to_yaml :: "string \<Rightarrow> pyval \<Rightarrow> pyval \<Rightarrow> pyval \<Rightarrow> pyval \<Rightarrow> string \<Rightarrow> pyval \<Rightarrow> error + pyval"
  held_spec :: "event list \<Rightarrow> pyval \<Rightarrow> pyval"

text \<open>
  The adapter object (\<open>self.config\<close>, \<open>self.auth_type\<close>, \<open>self.profile\<close>) together with
  the trace of events and the lines written to standard output.
\<close>

record state =
  config :: pyval
  auth_type :: pyval
  profile :: pyval
  trace :: "event list"
  out :: "string list"

type_synonym 'a result = "(error + 'a) \<times> state"

subsection \<open>Python primitives on values\<close>

fun truthy :: "pyval \<Rightarrow> bool" where
  "truthy PNone = False"
| "truthy (PBool b) = b"
| "truthy (PInt i) = (i \<noteq> 0)"
| "truthy (PStr s) = (s \<noteq> [])"
| "truthy (PList xs) = (xs \<noteq> [])"
| "truthy (PDict d) = (d \<noteq> [])"

text \<open>\<open>obj[k]\<close> for a string key.\<close>

fun py_getitem :: "pyval \<Rightarrow> string \<Rightarrow> error + pyval" where
  "py_getitem (PDict d) k = (case map_of d k of None \<Rightarrow> Inl (KeyError k) | Some v \<Rightarrow> Inr v)"
| "py_getitem _ k = Inl TypeError"

text \<open>\<open>obj.get(k, default)\<close>.\<close>

fun py_get :: "pyval \<Rightarrow> string \<Rightarrow> pyval \<Rightarrow> error + pyval" where
  "py_get (PDict d) k dflt = (case map_of d k of None \<Rightarrow> Inr dflt | Some v \<Rightarrow> Inr v)"
| "py_get _ k dflt = Inl AttributeError"

text \<open>\<open>k in obj\<close> for a string \<open>k\<close>.\<close>

fun py_contains :: "pyval \<Rightarrow> string \<Rightarrow> error + bool" where
  "py_contains (PDict d) k = Inr (map_of d k \<noteq> None)"
| "py_contains (PStr s) k = Inr (sublist k s)"
| "py_contains (PList xs) k = Inr (PStr k \<in> set xs)"
| "py_contains _ k = Inl TypeError"

text \<open>\<open>obj.pop(k)\<close> and \<open>obj.pop(k, default)\<close>: the value and the object afterwards.\<close>

fun py_pop :: "pyval \<Rightarrow> string \<Rightarrow> pyval option \<Rightarrow> error + (pyval \<times> pyval)" where
  "py_pop (PDict d) k dflt =
     (case map_of d k of
        Some v \<Rightarrow> Inr (v, PDict (AList.delete k d))
      | None \<Rightarrow> (case dflt of None \<Rightarrow> Inl (KeyError k) | Some v \<Rightarrow> Inr (v, PDict d)))"
| "py_pop (PList xs) k dflt = Inl TypeError"
| "py_pop _ k dflt = Inl AttributeError"

text \<open>\<open>obj[k] = v\<close> for a string key.\<close>

fun py_setitem :: "pyval \<Rightarrow> string \<Rightarrow> pyval \<Rightarrow> error + pyval" where
  "py_setitem (PDict d) k v = Inr (PDict (AList.update k v d))"
| "py_setitem _ k v = Inl TypeError"

subsection \<open>Sequencing with errors and state\<close>

definition seqE :: "(state \<Rightarrow> 'a result) \<Rightarrow> ('a \<Rightarrow> state \<Rightarrow> 'b result) \<Rightarrow> state \<Rightarrow> 'b result" where
  "seqE m f s = (case m s of (Inl e, s') \<Rightarrow> (Inl e, s') | (Inr a, s') \<Rightarrow> f a s')"

definition pure :: "error + 'a \<Rightarrow> state \<Rightarrow> 'a result" where
  "pure r s = (r, s)"

definition log :: "event \<Rightarrow> state \<Rightarrow> state" where
  "log ev s = s\<lparr>trace := trace s @ [ev]\<rparr>"

text \<open>A provider call: the call is recorded whether it returns or raises.\<close>

definition call :: "extern \<Rightarrow> event \<Rightarrow> state \<Rightarrow> string result" where
  "call ext ev s = (respond ext (trace s) ev, log ev s)"

text \<open>
  \<open>with AuthContext(auth=self.auth_type, profile=self.profile): body\<close>. The context is
  left on every path, also when the body raises. Entering and leaving it are taken not
  to raise.
\<close>

definition with_auth :: "(state \<Rightarrow> 'a result) \<Rightarrow> state \<Rightarrow> 'a result" where
  "with_auth body s =
     (case body (log (AuthEnter (auth_type s) (profile s)) s) of
        (r, s') \<Rightarrow> (r, log AuthExit s'))"

definition is_provider_call :: "event \<Rightarrow> bool" where
  "is_provider_call ev = (case ev of AuthEnter a p \<Rightarrow> False | AuthExit \<Rightarrow> False | _ \<Rightarrow> True)"

definition provider_calls :: "state \<Rightarrow> event list" where
  "provider_calls s = filter is_provider_call (trace s)"

text \<open>\<open>self.config["execution"][k]\<close> and \<open>self.config["execution"].get(k, default)\<close>.\<close>

definition execution_item :: "string \<Rightarrow> state \<Rightarrow> error + pyval" where
  "execution_item k s =
     (case py_getitem (config s) ''execution'' of Inl e \<Rightarrow> Inl e | Inr ex \<Rightarrow> py_getitem ex k)"

definition execution_get :: "string \<Rightarrow> pyval \<Rightarrow> state \<Rightarrow> error + pyval" where
  "execution_get k dflt s =
     (case py_getitem (config s) ''execution'' of Inl e \<Rightarrow> Inl e | Inr ex \<Rightarrow> py_get ex k dflt)"

definition readE :: "(state \<Rightarrow> error + 'a) \<Rightarrow> state \<Rightarrow> 'a result" where
  "readE f s = (f s, s)"

definition print_line :: "string \<Rightarrow> state \<Rightarrow> state" where
  "print_line l s = s\<lparr>out := out s @ [l]\<rparr>"

subsection \<open>Standard library: \<open>os.path.join\<close>, \<open>shlex.split\<close>, \<open>repr\<close>\<close>

text \<open>
  \<open>posixpath.join(a, b)\<close> with one component after \<open>a\<close>: an absolute \<open>b\<close> replaces
  the path, otherwise \<open>b\<close> is appended, after a separator unless the path is empty or
  ends with one. A component that is not a string raises \<open>TypeError\<close>.
\<close>

definition posix_join :: "string \<Rightarrow> string \<Rightarrow> string" where
  "posix_join a b =
     (if b \<noteq> [] \<and> hd b = CHR ''/'' then b
      else if a = [] \<or> last a = CHR ''/'' then a @ b
      else a @ ''/'' @ b)"

fun os_path_join :: "pyval \<Rightarrow> pyval \<Rightarrow> error + pyval" where
  "os_path_join (PStr a) (PStr b) = Inr (PStr (posix_join a b))"
| "os_path_join _ _ = Inl TypeError"

text \<open>
  \<open>shlex.split(s)\<close>: the lexer of \<open>shlex\<close> in POSIX mode with \<open>whitespace_split\<close> set,
  no comment characters and no punctuation characters. \<open>read_tokens\<close> carries the
  lexer's \<open>state\<close>, the flag \<open>quoted\<close> and the token being built, and consumes one
  character per step; \<open>InEscape None\<close> is the escape state with \<open>escapedstate = 'a'\<close>,
  \<open>InEscape (Some q)\<close> the one entered inside the quote \<open>q\<close>.
\<close>

datatype lexstate = InSpace | InWord | InQuote char | InEscape "char option"

definition whitespace :: string where
  "whitespace = [CHR '' '', CHR 0x09, CHR 0x0D, CHR 0x0A]"

definition quotes :: string where
  "quotes = [CHR 0x27, CHR 0x22]"

definition escape :: char where
  "escape = CHR 0x5C"

definition escapedquotes :: string where
  "escapedquotes = [CHR 0x22]"

definition emit :: "bool \<Rightarrow> string \<Rightarrow> string list \<Rightarrow> string list" where
  "emit quoted tok acc = (if tok \<noteq> [] \<or> quoted then acc @ [tok] else acc)"

fun read_tokens :: "lexstate \<Rightarrow> bool \<Rightarrow> string \<Rightarrow> string list \<Rightarrow> string \<Rightarrow> error + string list" where
  "read_tokens InSpace quoted tok acc [] = Inr (emit quoted tok acc)"
| "read_tokens InSpace quoted tok acc (c # cs) =
     (if c \<in> set whitespace then
        (if tok \<noteq> [] \<or> quoted then read_tokens InSpace False [] (acc @ [tok]) cs
         else read_tokens InSpace quoted tok acc cs)
      else if c = escape then read_tokens (InEscape None) quoted tok acc cs
      else if c \<in> set quotes then read_tokens (InQuote c) quoted tok acc cs
      else read_tokens InWord quoted [c] acc cs)"
| "read_tokens (InQuote q) quoted tok acc [] = Inl (ValueError ''No closing quotation'')"
| "read_tokens (InQuote q) quoted tok acc (c # cs) =
     (if c = q then read_tokens InWord True tok acc cs
      else if c = escape \<and> q \<in> set escapedquotes then read_tokens (InEscape (Some q)) True tok acc cs
      else read_tokens (InQuote q) True (tok @ [c]) acc cs)"
| "read_tokens (InEscape es) quoted tok acc [] = Inl (ValueError ''No escaped character'')"
| "read_tokens (InEscape es) quoted tok acc (c # cs) =
     (case es of
        None \<Rightarrow> read_tokens InWord quoted (tok @ [c]) acc cs
      | Some q \<Rightarrow>
          read_tokens (InQuote q) quoted
            ((if c \<noteq> escape \<and> c \<noteq> q then tok @ [escape] else tok) @ [c]) acc cs)"
| "read_tokens InWord quoted tok acc [] = Inr (emit quoted tok acc)"
| "read_tokens InWord quoted tok acc (c # cs) =
     (if c \<in> set whitespace then
        (if tok \<noteq> [] \<or> quoted then read_tokens InSpace False [] (acc @ [tok]) cs
         else read_tokens InSpace quoted tok acc cs)
      else if c \<in> set quotes then read_tokens (InQuote c) quoted tok acc cs
      else if c = escape then read_tokens (InEscape None) quoted tok acc cs
      else read_tokens InWord quoted (tok @ [c]) acc cs)"

text \<open>
  \<open>run\<close> calls \<open>shlex.split\<close> on a truthy value only. A value that is not a string is
  taken for a stream and fails at the first \<open>read\<close>.
\<close>

fun shlex_split :: "pyval \<Rightarrow> error + pyval" where
  "shlex_split (PStr s) =
     (case read_tokens InSpace False [] [] s of
        Inl e \<Rightarrow> Inl e
      | Inr ts \<Rightarrow> Inr (PList (map PStr ts)))"
| "shlex_split _ = Inl AttributeError"

text \<open>
  \<open>repr\<close> of a list of strings, as the f-string of the validation message prints it.
  The strings here are field names: no quote, backslash or unprintable character.
\<close>

fun comma_sep :: "string list \<Rightarrow> string" where
  "comma_sep [] = []"
| "comma_sep [x] = x"
| "comma_sep (x # y # ys) = x @ '', '' @ comma_sep (y # ys)"

definition repr_str :: "string \<Rightarrow> string" where
  "repr_str s = CHR 0x27 # s @ [CHR 0x27]"

definition repr_list :: "string list \<Rightarrow> string" where
  "repr_list xs = ''['' @ comma_sep (map repr_str xs) @ '']''"

section \<open>The operations of \<open>DataFlowBackend\<close>\<close>

definition REQUIRED_FIELDS :: "string list" where
  "REQUIRED_FIELDS =
     [''compartment_id'', ''driver_shape'', ''executor_shape'', ''logs_bucket_uri'',
      ''script_bucket'']"

subsection \<open>The constructor\<close>

text \<open>
  \<open>__init__\<close> keeps the configuration and reads \<open>auth\<close>, \<open>oci_config\<close> and
  \<open>oci_profile\<close> from \<open>config["execution"]\<close>. The signer and the client are not used
  by any operation of the module and are not kept in the state.
\<close>

definition DataFlowBackend :: "extern \<Rightarrow> pyval \<Rightarrow> error + state" where
  "DataFlowBackend ext cfg =
     (case py_getitem cfg ''execution'' of Inl e \<Rightarrow> Inl e | Inr ex \<Rightarrow>
      (case py_get ex ''auth'' PNone of Inl e \<Rightarrow> Inl e | Inr auth \<Rightarrow>
       (case py_get ex ''oci_config'' PNone of Inl e \<Rightarrow> Inl e | Inr oci_config \<Rightarrow>
        (case py_get ex ''oci_profile'' PNone of Inl e \<Rightarrow> Inl e | Inr oci_profile \<Rightarrow>
         (case create_signer ext auth oci_config oci_profile of Inl e \<Rightarrow> Inl e | Inr oci_auth \<Rightarrow>
          (case client_factory ext oci_auth of Inl e \<Rightarrow> Inl e | Inr u \<Rightarrow>
             Inr \<lparr>config = cfg, auth_type = auth, profile = oci_profile,
                  trace = [], out = []\<rparr>))))))"

subsection \<open>\<open>init\<close>\<close>

definition init_note :: string where
  "init_note =
     ''# This YAML specification was auto generated by the '' @ CHR 0x60 # ''ads opctl init'' @
     CHR 0x60 # '' command.'' @ [CHR 0x0A] @
     ''# The more details about the jobs YAML specification can be found in the ADS documentation:'' @
     [CHR 0x0A] @
     ''# https://accelerated-data-science.readthedocs.io/en/latest/user_guide/apachespark/dataflow.html '' @
     [CHR 0x0A, CHR 0x0A]"

definition init_in_context ::
  "extern \<Rightarrow> pyval \<Rightarrow> pyval \<Rightarrow> pyval \<Rightarrow> pyval \<Rightarrow> state \<Rightarrow> pyval result" where
  "init_in_context ext uri overwrite runtime_type kwargs =
     seqE (readE (\<lambda>s. py_get (config s) ''infrastructure'' (PDict []))) (\<lambda>i.
     seqE (pure (case (if truthy i then i else PDict []) of
                   PDict d \<Rightarrow> dataflow_init ext (PDict d) | _ \<Rightarrow> Inl TypeError)) (\<lambda>infra.
     seqE (pure (runtime_template ext
                   (if truthy runtime_type then runtime_type else default_runtime_type ext))) (\<lambda>rt.
     pure (to_yaml ext ''{Job name. For MLflow, it will be replaced with the Project name}''
             infra rt uri overwrite init_note kwargs))))"

definition init :: "extern \<Rightarrow> pyval \<Rightarrow> pyval \<Rightarrow> pyval \<Rightarrow> pyval \<Rightarrow> state \<Rightarrow> pyval result" where
  "init ext uri overwrite runtime_type kwargs =
     with_auth (init_in_context ext uri overwrite runtime_type kwargs)"

subsection \<open>\<open>apply\<close>\<close>

definition apply_df :: "state \<Rightarrow> unit result" where
  "apply_df s =
     (Inl (NotImplementedError
        (CHR 0x60 # ''apply'' @ CHR 0x60 # '' hasn't been supported for data flow yet.'')), s)"

subsection \<open>\<open>run\<close>\<close>

text \<open>
  \<open>infra = self.config.get("infrastructure", {})\<close> is the very object stored in the
  configuration when the key is there, so \<open>infra.pop\<close> and \<open>infra[k] = v\<close> change the
  configuration. \<open>store_infra\<close> writes the changed mapping back at once, so that the state
  is right on every later exit, normal or not. When the key is not there \<open>infra\<close> is a
  fresh empty mapping, and nothing is written back.
\<close>

definition store_infra :: "pyval \<Rightarrow> state \<Rightarrow> state" where
  "store_infra infra s =
     s\<lparr>config := (case config s of
                    PDict d \<Rightarrow> PDict (AList.map_entry ''infrastructure'' (\<lambda>old. infra) d)
                  | c \<Rightarrow> c)\<rparr>"

text \<open>\<open>any(k not in infra for k in ks)\<close> and \<open>[k for k in ks if k not in infra]\<close>.\<close>

fun any_missing :: "pyval \<Rightarrow> string list \<Rightarrow> error + bool" where
  "any_missing infra [] = Inr False"
| "any_missing infra (k # ks) =
     (case py_contains infra k of
        Inl e \<Rightarrow> Inl e
      | Inr b \<Rightarrow> if \<not> b then Inr True else any_missing infra ks)"

fun filter_missing :: "pyval \<Rightarrow> string list \<Rightarrow> error + string list" where
  "filter_missing infra [] = Inr []"
| "filter_missing infra (k # ks) =
     (case py_contains infra k of
        Inl e \<Rightarrow> Inl e
      | Inr b \<Rightarrow>
          (case filter_missing infra ks of
             Inl e \<Rightarrow> Inl e
           | Inr ms \<Rightarrow> Inr (if \<not> b then k # ms else ms)))"

definition missing_message :: "string list \<Rightarrow> string" where
  "missing_message missing =
     ''Following fields are missing but are required for OCI DataFlow Jobs: '' @
     repr_list missing @ ''. Please run '' @ CHR 0x60 # ''ads opctl configure'' @ CHR 0x60 # ''.''"

definition validate_infra :: "pyval \<Rightarrow> error + unit" where
  "validate_infra infra =
     (case any_missing infra REQUIRED_FIELDS of
        Inl e \<Rightarrow> Inl e
      | Inr b \<Rightarrow>
          if b then
            (case filter_missing infra REQUIRED_FIELDS of
               Inl e \<Rightarrow> Inl e
             | Inr missing \<Rightarrow> Inl (ValueError (missing_message missing)))
          else Inr ())"

text \<open>Lines 139 to 143: \<open>rt_spec = {}\<close> and its \<open>scriptPathURI\<close>.\<close>

definition script_path_spec :: "state \<Rightarrow> error + pyval" where
  "script_path_spec s =
     (case execution_item ''source_folder'' s of Inl e \<Rightarrow> Inl e | Inr source_folder \<Rightarrow>
      (case execution_item ''entrypoint'' s of Inl e \<Rightarrow> Inl e | Inr entrypoint \<Rightarrow>
       (case os_path_join source_folder entrypoint of Inl e \<Rightarrow> Inl e | Inr p \<Rightarrow>
          py_setitem (PDict []) ''scriptPathURI'' p)))"

text \<open>Lines 144 and 145. The result is the pair of \<open>infra\<close> and \<open>rt_spec\<close>.\<close>

definition take_script_bucket :: "pyval \<Rightarrow> pyval \<Rightarrow> state \<Rightarrow> (pyval \<times> pyval) result" where
  "take_script_bucket infra rt_spec s =
     (case py_contains infra ''script_bucket'' of
        Inl e \<Rightarrow> (Inl e, s)
      | Inr b \<Rightarrow>
          if b then
            (case py_pop infra ''script_bucket'' None of
               Inl e \<Rightarrow> (Inl e, s)
             | Inr (v, infra') \<Rightarrow>
                 (case py_setitem rt_spec ''scriptBucket'' v of
                    Inl e \<Rightarrow> (Inl e, store_infra infra' s)
                  | Inr rt_spec' \<Rightarrow> (Inr (infra', rt_spec'), store_infra infra' s)))
          else (Inr (infra, rt_spec), s))"

text \<open>Lines 146 and 147.\<close>

definition set_args :: "pyval \<Rightarrow> state \<Rightarrow> error + pyval" where
  "set_args rt_spec s =
     (case execution_get ''command'' PNone s of Inl e \<Rightarrow> Inl e | Inr c \<Rightarrow>
        if truthy c then
          (case execution_item ''command'' s of Inl e \<Rightarrow> Inl e | Inr command \<Rightarrow>
           (case shlex_split command of Inl e \<Rightarrow> Inl e | Inr args \<Rightarrow>
              py_setitem rt_spec ''args'' args))
        else Inr rt_spec)"

text \<open>Lines 148 to 150.\<close>

definition set_archive :: "pyval \<Rightarrow> pyval \<Rightarrow> state \<Rightarrow> (pyval \<times> pyval) result" where
  "set_archive infra rt_spec s =
     (case execution_get ''archive'' PNone s of Inl e \<Rightarrow> (Inl e, s) | Inr a \<Rightarrow>
        if truthy a then
          (case execution_item ''archive'' s of Inl e \<Rightarrow> (Inl e, s) | Inr archive \<Rightarrow>
           (case py_setitem rt_spec ''archiveUri'' archive of Inl e \<Rightarrow> (Inl e, s) | Inr rt1 \<Rightarrow>
            (case py_pop infra ''archive_bucket'' (Some PNone) of
               Inl e \<Rightarrow> (Inl e, s)
             | Inr (v, infra') \<Rightarrow>
                 (case py_setitem rt1 ''archiveBucket'' v of
                    Inl e \<Rightarrow> (Inl e, store_infra infra' s)
                  | Inr rt2 \<Rightarrow> (Inr (infra', rt2), store_infra infra' s)))))
        else (Inr (infra, rt_spec), s))"

text \<open>Lines 152 and 153.\<close>

definition parse_configuration :: "extern \<Rightarrow> pyval \<Rightarrow> state \<Rightarrow> pyval result" where
  "parse_configuration ext infra s =
     (case py_contains infra ''configuration'' of
        Inl e \<Rightarrow> (Inl e, s)
      | Inr b \<Rightarrow>
          if b then
            (case py_getitem infra ''configuration'' of Inl e \<Rightarrow> (Inl e, s) | Inr c \<Rightarrow>
             (case json_loads ext c of Inl e \<Rightarrow> (Inl e, s) | Inr v \<Rightarrow>
              (case py_setitem infra ''configuration'' v of
                 Inl e \<Rightarrow> (Inl e, s)
               | Inr infra' \<Rightarrow> (Inr infra', store_infra infra' s))))
          else (Inr infra, s))"

text \<open>
  From line 154 on the library holds the infrastructure mapping that is stored in the
  configuration. \<open>library_holds\<close> is one occasion on which the library runs: the stored
  mapping becomes what \<open>held_spec\<close> makes of it. Nothing else of the state changes.
\<close>

definition library_holds :: "extern \<Rightarrow> state \<Rightarrow> state" where
  "library_holds ext s =
     s\<lparr>config := (case config s of
                    PDict d \<Rightarrow>
                      PDict (AList.map_entry ''infrastructure'' (held_spec ext (trace s)) d)
                  | c \<Rightarrow> c)\<rparr>"

text \<open>A provider call on the Job that holds the mapping.\<close>

definition call_holding :: "extern \<Rightarrow> event \<Rightarrow> state \<Rightarrow> string result" where
  "call_holding ext ev s = (respond ext (trace s) ev, library_holds ext (log ev s))"

text \<open>
  Lines 151 and 154 to 157. The constructors \<open>DataFlowRuntime\<close>, \<open>DataFlow\<close> and \<open>Job\<close>
  are taken not to raise; \<open>DataFlow(spec=infra)\<close> is the first occasion on which the
  library holds the mapping. \<open>JobCreate\<close> carries the infrastructure spec and the runtime
  spec as \<open>run\<close> hands them to the constructors, and the overwrite flag, and yields the
  id of the created Job (\<open>df.id\<close>); \<open>JobRun\<close> yields the id of the submitted Run.
\<close>

definition create_and_submit ::
  "extern \<Rightarrow> pyval \<Rightarrow> pyval \<Rightarrow> state \<Rightarrow> (string option \<times> string option) result" where
  "create_and_submit ext infra rt_spec s =
     seqE (readE (execution_get ''overwrite'' (PBool False))) (\<lambda>overwrite.
     seqE (call_holding ext (JobCreate infra rt_spec overwrite)) (\<lambda>job_id.
     seqE (call_holding ext (JobRun job_id)) (\<lambda>run_id.
     pure (Inr (Some job_id, Some run_id)))))
     (library_holds ext s)"

text \<open>The \<open>else\<close> branch of \<open>run\<close>, lines 133 to 157.\<close>

definition run_new :: "extern \<Rightarrow> state \<Rightarrow> (string option \<times> string option) result" where
  "run_new ext =
     seqE (readE (\<lambda>s. py_get (config s) ''infrastructure'' (PDict []))) (\<lambda>infra.
     seqE (pure (validate_infra infra)) (\<lambda>u.
     seqE (readE script_path_spec) (\<lambda>rt0.
     seqE (take_script_bucket infra rt0) (\<lambda>(infra1, rt1).
     seqE (readE (set_args rt1)) (\<lambda>rt2.
     seqE (set_archive infra1 rt2) (\<lambda>(infra2, rt3).
     seqE (parse_configuration ext infra2) (\<lambda>infra3.
     create_and_submit ext infra3 rt3)))))))"

text \<open>
  The \<open>if\<close> branch, lines 130 and 131. It binds \<open>data_flow_id\<close> and \<open>run_id\<close>;
  the local \<open>job_id\<close> stays unbound.
\<close>

definition run_existing :: "extern \<Rightarrow> state \<Rightarrow> (string option \<times> string option) result" where
  "run_existing ext =
     seqE (readE (execution_item ''ocid'')) (\<lambda>data_flow_id.
     seqE (call ext (JobFromDataflowJob data_flow_id)) (\<lambda>job.
     seqE (call ext (JobRun job)) (\<lambda>run_id.
     pure (Inr (None, Some run_id)))))"

text \<open>The body of the \<open>with\<close> block: the values of the locals \<open>job_id\<close> and \<open>run_id\<close>.\<close>

definition run_in_context :: "extern \<Rightarrow> state \<Rightarrow> (string option \<times> string option) result" where
  "run_in_context ext =
     seqE (readE (execution_get ''ocid'' PNone)) (\<lambda>ocid.
       if truthy ocid then run_existing ext else run_new ext)"

text \<open>Lines 158 to 160, after the \<open>with\<close> block: reading an unbound local raises.\<close>

definition report :: "string option \<times> string option \<Rightarrow> state \<Rightarrow> pyval result" where
  "report locals s =
     (case fst locals of
        None \<Rightarrow> (Inl (UnboundLocalError ''job_id''), s)
      | Some job_id \<Rightarrow>
          (case snd locals of
             None \<Rightarrow> (Inl (UnboundLocalError ''run_id''), print_line (''DataFlow App ID: '' @ job_id) s)
           | Some run_id \<Rightarrow>
               (Inr (PDict [(''job_id'', PStr job_id), (''run_id'', PStr run_id)]),
                print_line (''DataFlow Run ID: '' @ run_id)
                  (print_line (''DataFlow App ID: '' @ job_id) s))))"

definition run :: "extern \<Rightarrow> state \<Rightarrow> pyval result" where
  "run ext = seqE (with_auth (run_in_context ext)) report"

subsection \<open>\<open>cancel\<close>, \<open>delete\<close>, \<open>watch\<close>\<close>

definition delete_run :: "extern \<Rightarrow> pyval \<Rightarrow> state \<Rightarrow> unit result" where
  "delete_run ext run_id =
     with_auth
       (seqE (call ext (RunFromOcid run_id)) (\<lambda>r.
        seqE (call ext (RunDelete r)) (\<lambda>u. pure (Inr ()))))"

definition cancel :: "extern \<Rightarrow> state \<Rightarrow> unit result" where
  "cancel ext =
     seqE (readE (execution_get ''run_id'' PNone)) (\<lambda>r.
       if \<not> truthy r then pure (Inl (ValueError ''Can only cancel a DataFlow run.''))
       else seqE (readE (execution_item ''run_id'')) (delete_run ext))"

definition delete_job :: "extern \<Rightarrow> pyval \<Rightarrow> state \<Rightarrow> unit result" where
  "delete_job ext data_flow_id =
     with_auth
       (seqE (call ext (JobFromDataflowJob data_flow_id)) (\<lambda>j.
        seqE (call ext (JobDelete j)) (\<lambda>u. pure (Inr ()))))"

definition delete :: "extern \<Rightarrow> state \<Rightarrow> unit result" where
  "delete ext =
     seqE (readE (execution_get ''id'' PNone)) (\<lambda>i.
       if truthy i then seqE (readE (execution_item ''id'')) (delete_job ext)
       else
         seqE (readE (execution_get ''run_id'' PNone)) (\<lambda>r.
           if truthy r then seqE (readE (execution_item ''run_id'')) (delete_run ext)
           else pure (Inr ())))"

definition watch :: "extern \<Rightarrow> state \<Rightarrow> unit result" where
  "watch ext =
     seqE (readE (execution_item ''run_id'')) (\<lambda>run_id.
       with_auth
         (seqE (call ext (RunFromOcid run_id)) (\<lambda>r.
          seqE (call ext (RunWatch r)) (\<lambda>u. pure (Inr ())))))"

subsection \<open>Concrete inputs\<close>

text \<open>
  The configurations and the collaborators at which the theorems below are evaluated.
  \<open>responsive\<close> is a provider that answers every call: a lookup yields a handle made
  from nothing but the call, creation yields \<open>job-1\<close> and a submission \<open>run-1\<close>. Its
  \<open>json_loads\<close> knows the empty object and raises on every other string, which is what
  \<open>json.loads\<close> does on the two documents used here, \<open>{}\<close> and \<open>{\<close>. Its library
  leaves the mapping it holds as it finds it.
\<close>

definition responsive :: extern where
  "responsive =
     \<lparr>respond = (\<lambda>tr ev. case ev of
                   JobFromDataflowJob i \<Rightarrow> Inr ''job-0''
                 | JobCreate i r ov \<Rightarrow> Inr ''job-1''
                 | JobRun j \<Rightarrow> Inr ''run-1''
                 | RunFromOcid i \<Rightarrow> Inr ''run-0''
                 | _ \<Rightarrow> Inr []),
      json_loads = (\<lambda>v. case v of
                      PStr t \<Rightarrow> if t = ''{}'' then Inr (PDict []) else Inl JSONDecodeError
                    | _ \<Rightarrow> Inl TypeError),
      create_signer = (\<lambda>auth oci_config oci_profile. Inr (PDict [])),
      client_factory = (\<lambda>oci_auth. Inr ()),
      dataflow_init = (\<lambda>kwargs. Inr kwargs),
      default_runtime_type = PStr ''dataFlow'',
      runtime_template = (\<lambda>key. Inr (PDict [(''type'', key)])),
      to_yaml = (\<lambda>name infra rt uri overwrite note kwargs. Inr PNone),
      held_spec = (\<lambda>tr infra. infra)\<rparr>"

definition fresh :: "pyval \<Rightarrow> state" where
  "fresh cfg = \<lparr>config = cfg, auth_type = PNone, profile = PNone, trace = [], out = []\<rparr>"

text \<open>The configuration of the spec's example.\<close>

definition example_execution :: "(string \<times> pyval) list" where
  "example_execution =
     [(''source_folder'', PStr ''/a''), (''entrypoint'', PStr ''job.py''),
      (''command'', PStr ''--x 1'')]"

definition example_infrastructure :: "(string \<times> pyval) list" where
  "example_infrastructure =
     [(''compartment_id'', PStr ''c1''), (''driver_shape'', PStr ''d''),
      (''executor_shape'', PStr ''e''), (''logs_bucket_uri'', PStr ''b''),
      (''script_bucket'', PStr ''sb'')]"

definition example_config :: pyval where
  "example_config =
     PDict [(''execution'', PDict example_execution),
            (''infrastructure'', PDict example_infrastructure)]"

text \<open>The example without \<open>driver_shape\<close> and \<open>script_bucket\<close>.\<close>

definition incomplete_config :: pyval where
  "incomplete_config =
     PDict [(''execution'', PDict example_execution),
            (''infrastructure'',
             PDict [(''compartment_id'', PStr ''c1''), (''executor_shape'', PStr ''e''),
                    (''logs_bucket_uri'', PStr ''b'')])]"

text \<open>An existing Job, named by \<open>execution.ocid\<close>, with two infrastructures.\<close>

definition ocid_config :: "(string \<times> pyval) list \<Rightarrow> pyval" where
  "ocid_config infra =
     PDict [(''execution'', PDict [(''ocid'', PStr ''ocid1.dataflowapplication.oc1..aaaa'')]),
            (''infrastructure'', PDict infra)]"

text \<open>The example without \<open>entrypoint\<close>.\<close>

definition no_entrypoint_config :: pyval where
  "no_entrypoint_config =
     PDict [(''execution'', PDict [(''source_folder'', PStr ''/a'')]),
            (''infrastructure'', PDict example_infrastructure)]"

text \<open>The example with an archive and a \<open>configuration\<close> that is not JSON.\<close>

definition bad_json_config :: pyval where
  "bad_json_config =
     PDict [(''execution'',
             PDict [(''source_folder'', PStr ''/a''), (''entrypoint'', PStr ''job.py''),
                    (''archive'', PStr ''archive.zip'')]),
            (''infrastructure'',
             PDict (example_infrastructure @
                    [(''archive_bucket'', PStr ''ab''), (''configuration'', PStr ''{'')]))]"

text \<open>Configurations for \<open>delete\<close>: a Job id and a Run id, and a Run id alone.\<close>

definition job_and_run_config :: pyval where
  "job_and_run_config =
     PDict [(''execution'', PDict [(''id'', PStr ''job-7''), (''run_id'', PStr ''run-7'')])]"

definition run_only_config :: pyval where
  "run_only_config = PDict [(''execution'', PDict [(''run_id'', PStr ''run-7'')])]"

section \<open>Properties\<close>

text \<open>
  C8. Whatever the configuration (and the rest of the adapter's state), \<open>apply\<close> raises
  \<open>NotImplementedError\<close>, and it does nothing else: the state, with its trace and its
  output, is the one it started from.
\<close>

theorem apply_always_not_implemented:
  "\<exists>msg. apply_df s = (Inl (NotImplementedError msg), s)"
  by (simp add: apply_df_def)


subsection \<open>Sequencing, the trace and the configuration's views\<close>

lemma seqE_readE: "seqE (readE g) f s = (case g s of Inl e \<Rightarrow> (Inl e, s) | Inr a \<Rightarrow> f a s)"
  by (simp add: seqE_def readE_def split: sum.splits)

lemma seqE_pure: "seqE (pure r) f s = (case r of Inl e \<Rightarrow> (Inl e, s) | Inr a \<Rightarrow> f a s)"
  by (simp add: seqE_def pure_def split: sum.splits)

lemma seqE_call:
  "seqE (call ext ev) f s =
     (case respond ext (trace s) ev of Inl e \<Rightarrow> (Inl e, log ev s) | Inr a \<Rightarrow> f a (log ev s))"
  by (simp add: seqE_def call_def split: sum.splits)

lemma log_fields:
  "config (log ev s) = config s" "auth_type (log ev s) = auth_type s"
  "profile (log ev s) = profile s" "out (log ev s) = out s"
  "trace (log ev s) = trace s @ [ev]"
  by (simp_all add: log_def)

lemma execution_log:
  "execution_get k d (log ev s) = execution_get k d s"
  "execution_item k (log ev s) = execution_item k s"
  by (simp_all add: execution_get_def execution_item_def log_fields)

lemma execution_get_mapping:
  "py_getitem (config s) ''execution'' = Inr (PDict ex) \<Longrightarrow>
   execution_get k d s = Inr (case map_of ex k of None \<Rightarrow> d | Some v \<Rightarrow> v)"
  by (simp add: execution_get_def split: option.splits)

lemma execution_item_mapping:
  "py_getitem (config s) ''execution'' = Inr (PDict ex) \<Longrightarrow>
   execution_item k s = (case map_of ex k of None \<Rightarrow> Inl (KeyError k) | Some v \<Rightarrow> Inr v)"
  by (simp add: execution_item_def split: option.splits)

text \<open>
  A constructed adapter has a configuration whose \<open>execution\<close> entry is a mapping: the
  theorems below that assume one speak about every adapter there is.
\<close>

lemma DataFlowBackend_execution:
  assumes "DataFlowBackend ext cfg = Inr s"
  shows "config s = cfg \<and> trace s = [] \<and> out s = []
         \<and> (\<exists>ex. py_getitem cfg ''execution'' = Inr (PDict ex))"
proof -
  obtain v where v: "py_getitem cfg ''execution'' = Inr v"
    using assms by (cases "py_getitem cfg ''execution''") (simp_all add: DataFlowBackend_def)
  have "\<exists>ex. v = PDict ex"
    using assms v by (cases v) (simp_all add: DataFlowBackend_def)
  moreover have "config s = cfg \<and> trace s = [] \<and> out s = []"
    using assms v by (auto simp add: DataFlowBackend_def split: sum.splits)
  ultimately show ?thesis using v by auto
qed

lemma DataFlowBackend_example: "DataFlowBackend responsive example_config = Inr (fresh example_config)"
  by (simp add: DataFlowBackend_def responsive_def example_config_def example_execution_def
      fresh_def)

subsection \<open>Validation of the infrastructure\<close>

lemma any_missing_mapping:
  "any_missing (PDict d) ks = Inr (\<exists>k \<in> set ks. map_of d k = None)"
  by (induction ks) auto

lemma filter_missing_mapping:
  "filter_missing (PDict d) ks = Inr [k \<leftarrow> ks. map_of d k = None]"
  by (induction ks) auto

lemma validate_infra_mapping:
  "validate_infra (PDict d) =
     (if \<exists>k \<in> set REQUIRED_FIELDS. map_of d k = None
      then Inl (ValueError (missing_message [k \<leftarrow> REQUIRED_FIELDS. map_of d k = None]))
      else Inr ())"
  by (simp add: validate_infra_def any_missing_mapping filter_missing_mapping)

subsection \<open>The two paths of \<open>run\<close>\<close>

lemma run_unfold:
  "run ext s =
     (case run_in_context ext (log (AuthEnter (auth_type s) (profile s)) s) of
        (Inl e, s') \<Rightarrow> (Inl e, log AuthExit s')
      | (Inr locals, s') \<Rightarrow> report locals (log AuthExit s'))"
  by (simp add: run_def seqE_def with_auth_def split: prod.splits sum.splits)

lemma run_in_context_falsy:
  "execution_get ''ocid'' PNone s = Inr ocid \<Longrightarrow> \<not> truthy ocid \<Longrightarrow>
   run_in_context ext s = run_new ext s"
  by (simp add: run_in_context_def seqE_readE)

lemma run_in_context_truthy:
  "execution_get ''ocid'' PNone s = Inr ocid \<Longrightarrow> truthy ocid \<Longrightarrow>
   run_in_context ext s = run_existing ext s"
  by (simp add: run_in_context_def seqE_readE)

text \<open>
  C2. Let \<open>execution.ocid\<close> be absent or falsy, and let
  \<open>self.config.get("infrastructure", {})\<close> be a mapping that lacks at least one of the
  \<open>REQUIRED_FIELDS\<close>. Then \<open>run\<close> raises \<open>ValueError\<close>; its message is the f-string of
  the source around the list of exactly the missing fields, in the order of
  \<open>REQUIRED_FIELDS\<close>; the only events are entering and leaving the authentication
  context, so no provider call is made, and nothing else of the state changes.
\<close>

theorem run_missing_fields:
  assumes "execution_get ''ocid'' PNone s = Inr ocid" and "\<not> truthy ocid"
    and "py_get (config s) ''infrastructure'' (PDict []) = Inr (PDict infra)"
    and "\<exists>k \<in> set REQUIRED_FIELDS. map_of infra k = None"
  shows "run ext s =
           (Inl (ValueError (missing_message [k \<leftarrow> REQUIRED_FIELDS. map_of infra k = None])),
            log AuthExit (log (AuthEnter (auth_type s) (profile s)) s))
         \<and> provider_calls (snd (run ext s)) = provider_calls s"
proof -
  let ?s1 = "log (AuthEnter (auth_type s) (profile s)) s"
  have "run_in_context ext ?s1 = run_new ext ?s1"
    using assms(1,2) by (intro run_in_context_falsy[of _ ocid]) (simp_all add: execution_log)
  moreover have "run_new ext ?s1 =
      (Inl (ValueError (missing_message [k \<leftarrow> REQUIRED_FIELDS. map_of infra k = None])), ?s1)"
    using assms(3,4) by (simp add: run_new_def seqE_readE seqE_pure log_fields validate_infra_mapping)
  ultimately have r: "run ext s =
      (Inl (ValueError (missing_message [k \<leftarrow> REQUIRED_FIELDS. map_of infra k = None])),
       log AuthExit ?s1)"
    by (simp add: run_unfold)
  show ?thesis
    by (simp add: r provider_calls_def log_fields is_provider_call_def)
qed

theorem run_missing_fields_witness:
  "execution_get ''ocid'' PNone (fresh incomplete_config) = Inr PNone \<and> \<not> truthy PNone
   \<and> fst (run responsive (fresh incomplete_config)) =
       Inl (ValueError (missing_message [''driver_shape'', ''script_bucket'']))
   \<and> missing_message [''driver_shape'', ''script_bucket''] =
       ''Following fields are missing but are required for OCI DataFlow Jobs: '' @
       [CHR 0x5B, CHR 0x27] @ ''driver_shape'' @ [CHR 0x27] @ '', '' @ [CHR 0x27] @
       ''script_bucket'' @ [CHR 0x27, CHR 0x5D] @ ''. Please run '' @ [CHR 0x60] @
       ''ads opctl configure'' @ [CHR 0x60] @ ''.''
   \<and> provider_calls (snd (run responsive (fresh incomplete_config))) = []"
proof -
  have h1: "execution_get ''ocid'' PNone (fresh incomplete_config) = Inr PNone"
    by (simp add: execution_get_def fresh_def incomplete_config_def example_execution_def)
  have h2: "\<not> truthy PNone" by simp
  have h3: "py_get (config (fresh incomplete_config)) ''infrastructure'' (PDict []) =
      Inr (PDict [(''compartment_id'', PStr ''c1''), (''executor_shape'', PStr ''e''),
                  (''logs_bucket_uri'', PStr ''b'')])"
    by (simp add: fresh_def incomplete_config_def)
  have h4: "\<exists>k \<in> set REQUIRED_FIELDS. map_of [(''compartment_id'', PStr ''c1''),
      (''executor_shape'', PStr ''e''), (''logs_bucket_uri'', PStr ''b'')] k = None"
    by (simp add: REQUIRED_FIELDS_def)
  have m: "missing_message [''driver_shape'', ''script_bucket''] =
       ''Following fields are missing but are required for OCI DataFlow Jobs: '' @
       [CHR 0x5B, CHR 0x27] @ ''driver_shape'' @ [CHR 0x27] @ '', '' @ [CHR 0x27] @
       ''script_bucket'' @ [CHR 0x27, CHR 0x5D] @ ''. Please run '' @ [CHR 0x60] @
       ''ads opctl configure'' @ [CHR 0x60] @ ''.''"
    by (simp add: missing_message_def repr_list_def repr_str_def)
  show ?thesis
    using run_missing_fields[OF h1 h2 h3 h4, of responsive] h1 m
    by (simp add: REQUIRED_FIELDS_def provider_calls_def fresh_def log_fields
        is_provider_call_def)
qed

text \<open>
  C9. Let \<open>execution.ocid\<close> be absent or falsy and let the infrastructure mapping hold
  every one of the \<open>REQUIRED_FIELDS\<close>. If \<open>execution\<close> lacks \<open>source_folder\<close> or
  \<open>entrypoint\<close>, then \<open>run\<close> raises \<open>KeyError\<close> on the missing key (on \<open>source_folder\<close>
  when both are missing, since it is read first), not \<open>ValueError\<close>, and it does so
  before any provider call: the only events are entering and leaving the
  authentication context.
\<close>

theorem run_missing_execution_key:
  assumes "execution_get ''ocid'' PNone s = Inr ocid" and "\<not> truthy ocid"
    and "py_get (config s) ''infrastructure'' (PDict []) = Inr (PDict infra)"
    and "\<forall>k \<in> set REQUIRED_FIELDS. map_of infra k \<noteq> None"
    and "py_getitem (config s) ''execution'' = Inr (PDict ex)"
    and "map_of ex ''source_folder'' = None \<or> map_of ex ''entrypoint'' = None"
  shows "run ext s =
           (Inl (KeyError (if map_of ex ''source_folder'' = None then ''source_folder''
                           else ''entrypoint'')),
            log AuthExit (log (AuthEnter (auth_type s) (profile s)) s))
         \<and> provider_calls (snd (run ext s)) = provider_calls s"
proof -
  let ?s1 = "log (AuthEnter (auth_type s) (profile s)) s"
  let ?k = "if map_of ex ''source_folder'' = None then ''source_folder'' else ''entrypoint''"
  have "run_in_context ext ?s1 = run_new ext ?s1"
    using assms(1,2) by (intro run_in_context_falsy[of _ ocid]) (simp_all add: execution_log)
  moreover have "script_path_spec ?s1 = Inl (KeyError ?k)"
    using assms(5,6)
    by (auto simp add: script_path_spec_def execution_item_mapping log_fields split: option.splits)
  then have "run_new ext ?s1 = (Inl (KeyError ?k), ?s1)"
    using assms(3,4) by (simp add: run_new_def seqE_readE seqE_pure log_fields validate_infra_mapping)
  ultimately have r: "run ext s = (Inl (KeyError ?k), log AuthExit ?s1)"
    by (simp add: run_unfold)
  show ?thesis
    by (simp add: r provider_calls_def log_fields is_provider_call_def)
qed

theorem run_missing_execution_key_witness:
  "map_of [(''source_folder'', PStr ''/a'')] ''entrypoint'' = None
   \<and> fst (run responsive (fresh no_entrypoint_config)) = Inl (KeyError ''entrypoint'')
   \<and> provider_calls (snd (run responsive (fresh no_entrypoint_config))) = []"
proof -
  have h1: "execution_get ''ocid'' PNone (fresh no_entrypoint_config) = Inr PNone"
    by (simp add: execution_get_def fresh_def no_entrypoint_config_def)
  have h2: "\<not> truthy PNone" by simp
  have h3: "py_get (config (fresh no_entrypoint_config)) ''infrastructure'' (PDict []) =
      Inr (PDict example_infrastructure)"
    by (simp add: fresh_def no_entrypoint_config_def)
  have h4: "\<forall>k \<in> set REQUIRED_FIELDS. map_of example_infrastructure k \<noteq> None"
    by (simp add: REQUIRED_FIELDS_def example_infrastructure_def)
  have h5: "py_getitem (config (fresh no_entrypoint_config)) ''execution'' =
      Inr (PDict [(''source_folder'', PStr ''/a'')])"
    by (simp add: fresh_def no_entrypoint_config_def)
  have h6: "map_of [(''source_folder'', PStr ''/a'')] ''source_folder'' = None
      \<or> map_of [(''source_folder'', PStr ''/a'')] ''entrypoint'' = None"
    by simp
  show ?thesis
    using run_missing_execution_key[OF h1 h2 h3 h4 h5 h6, of responsive]
    by (simp add: provider_calls_def fresh_def log_fields is_provider_call_def)
qed


subsection \<open>\<open>cancel\<close>, \<open>delete\<close> and \<open>watch\<close>\<close>

lemma with_auth_lookup_then:
  "with_auth (seqE (call ext ev) (\<lambda>h. seqE (call ext (act h)) (\<lambda>u. pure (Inr ())))) s =
     (let s1 = log ev (log (AuthEnter (auth_type s) (profile s)) s) in
      case respond ext (trace s @ [AuthEnter (auth_type s) (profile s)]) ev of
        Inl e \<Rightarrow> (Inl e, log AuthExit s1)
      | Inr h \<Rightarrow>
          (case respond ext (trace s1) (act h) of
             Inl e \<Rightarrow> (Inl e, log AuthExit (log (act h) s1))
           | Inr u \<Rightarrow> (Inr (), log AuthExit (log (act h) s1))))"
  by (simp add: with_auth_def seqE_call pure_def log_fields Let_def split: sum.splits)

lemma delete_run_calls:
  "provider_calls (snd (delete_run ext run_id s)) =
     provider_calls s @ RunFromOcid run_id #
       (case respond ext (trace s @ [AuthEnter (auth_type s) (profile s)]) (RunFromOcid run_id) of
          Inl e \<Rightarrow> [] | Inr r \<Rightarrow> [RunDelete r])"
  by (simp add: delete_run_def with_auth_lookup_then provider_calls_def log_fields
      is_provider_call_def Let_def split: sum.splits)

lemma delete_job_calls:
  "provider_calls (snd (delete_job ext data_flow_id s)) =
     provider_calls s @ JobFromDataflowJob data_flow_id #
       (case respond ext (trace s @ [AuthEnter (auth_type s) (profile s)])
               (JobFromDataflowJob data_flow_id) of
          Inl e \<Rightarrow> [] | Inr j \<Rightarrow> [JobDelete j])"
  by (simp add: delete_job_def with_auth_lookup_then provider_calls_def log_fields
      is_provider_call_def Let_def split: sum.splits)

lemma truthy_get_item:
  assumes "py_getitem (config s) ''execution'' = Inr (PDict ex)"
    and "execution_get k PNone s = Inr v" and "truthy v"
  shows "execution_item k s = Inr v"
  using assms by (auto simp add: execution_get_mapping execution_item_mapping split: option.splits)

text \<open>
  C7. Let \<open>i\<close> and \<open>r\<close> be what \<open>execution.get("id")\<close> and \<open>execution.get("run_id")\<close>
  yield (\<open>None\<close> for an absent key). If both are falsy, \<open>delete\<close> returns normally
  and leaves the whole state, trace included, as it was. If \<open>i\<close> is truthy, the
  provider calls are the lookup of the Job \<open>i\<close> followed, when the lookup returns, by
  the deletion of that Job, and nothing is done to any Run. If \<open>i\<close> is falsy and \<open>r\<close>
  truthy, they are the lookup of the Run \<open>r\<close> followed by its deletion.
\<close>

theorem delete_by_id_then_run_id:
  assumes "py_getitem (config s) ''execution'' = Inr (PDict ex)"
    and "execution_get ''id'' PNone s = Inr i"
    and "execution_get ''run_id'' PNone s = Inr r"
  shows "(\<not> truthy i \<and> \<not> truthy r \<longrightarrow> delete ext s = (Inr (), s))
       \<and> (truthy i \<longrightarrow>
            provider_calls (snd (delete ext s)) =
              provider_calls s @ JobFromDataflowJob i #
                (case respond ext (trace s @ [AuthEnter (auth_type s) (profile s)])
                        (JobFromDataflowJob i) of
                   Inl e \<Rightarrow> [] | Inr j \<Rightarrow> [JobDelete j]))
       \<and> (\<not> truthy i \<and> truthy r \<longrightarrow>
            provider_calls (snd (delete ext s)) =
              provider_calls s @ RunFromOcid r #
                (case respond ext (trace s @ [AuthEnter (auth_type s) (profile s)])
                        (RunFromOcid r) of
                   Inl e \<Rightarrow> [] | Inr h \<Rightarrow> [RunDelete h]))"
proof (intro conjI impI)
  assume "\<not> truthy i \<and> \<not> truthy r"
  then show "delete ext s = (Inr (), s)"
    using assms(2,3) by (simp add: delete_def seqE_readE pure_def)
next
  assume t: "truthy i"
  have "execution_item ''id'' s = Inr i"
    using assms(1,2) t by (rule truthy_get_item)
  then have "delete ext s = delete_job ext i s"
    using assms(2) t by (simp add: delete_def seqE_readE)
  then show "provider_calls (snd (delete ext s)) =
      provider_calls s @ JobFromDataflowJob i #
        (case respond ext (trace s @ [AuthEnter (auth_type s) (profile s)])
                (JobFromDataflowJob i) of
           Inl e \<Rightarrow> [] | Inr j \<Rightarrow> [JobDelete j])"
    by (simp add: delete_job_calls)
next
  assume t: "\<not> truthy i \<and> truthy r"
  have "execution_item ''run_id'' s = Inr r"
    using assms(1,3) t by (intro truthy_get_item) simp_all
  then have "delete ext s = delete_run ext r s"
    using assms(2,3) t by (simp add: delete_def seqE_readE)
  then show "provider_calls (snd (delete ext s)) =
      provider_calls s @ RunFromOcid r #
        (case respond ext (trace s @ [AuthEnter (auth_type s) (profile s)]) (RunFromOcid r) of
           Inl e \<Rightarrow> [] | Inr h \<Rightarrow> [RunDelete h])"
    by (simp add: delete_run_calls)
qed

theorem delete_by_id_then_run_id_witness:
  "delete responsive (fresh example_config) = (Inr (), fresh example_config)
   \<and> provider_calls (snd (delete responsive (fresh job_and_run_config))) =
       [JobFromDataflowJob (PStr ''job-7''), JobDelete ''job-0'']
   \<and> provider_calls (snd (delete responsive (fresh run_only_config))) =
       [RunFromOcid (PStr ''run-7''), RunDelete ''run-0'']"
proof -
  have a1: "py_getitem (config (fresh example_config)) ''execution'' = Inr (PDict example_execution)"
    by (simp add: fresh_def example_config_def)
  have a2: "execution_get ''id'' PNone (fresh example_config) = Inr PNone"
    by (simp add: execution_get_mapping[OF a1] example_execution_def)
  have a3: "execution_get ''run_id'' PNone (fresh example_config) = Inr PNone"
    by (simp add: execution_get_mapping[OF a1] example_execution_def)
  have b1: "py_getitem (config (fresh job_and_run_config)) ''execution'' =
      Inr (PDict [(''id'', PStr ''job-7''), (''run_id'', PStr ''run-7'')])"
    by (simp add: fresh_def job_and_run_config_def)
  have b2: "execution_get ''id'' PNone (fresh job_and_run_config) = Inr (PStr ''job-7'')"
    by (simp add: execution_get_mapping[OF b1])
  have b3: "execution_get ''run_id'' PNone (fresh job_and_run_config) = Inr (PStr ''run-7'')"
    by (simp add: execution_get_mapping[OF b1])
  have c1: "py_getitem (config (fresh run_only_config)) ''execution'' =
      Inr (PDict [(''run_id'', PStr ''run-7'')])"
    by (simp add: fresh_def run_only_config_def)
  have c2: "execution_get ''id'' PNone (fresh run_only_config) = Inr PNone"
    by (simp add: execution_get_mapping[OF c1])
  have c3: "execution_get ''run_id'' PNone (fresh run_only_config) = Inr (PStr ''run-7'')"
    by (simp add: execution_get_mapping[OF c1])
  have p: "provider_calls (fresh cfg) = []" for cfg
    by (simp add: provider_calls_def fresh_def)
  show ?thesis
    using delete_by_id_then_run_id[OF a1 a2 a3, of responsive]
      delete_by_id_then_run_id[OF b1 b2 b3, of responsive]
      delete_by_id_then_run_id[OF c1 c2 c3, of responsive]
    by (simp add: p responsive_def)
qed


text \<open>
  C3, as the code has it. Let \<open>execution\<close> be a mapping without the key \<open>run_id\<close>.
  Then \<open>cancel\<close> raises \<open>ValueError\<close> and \<open>watch\<close> raises \<open>KeyError\<close> on \<open>run_id\<close>:
  \<open>watch\<close> reads the key by plain indexing and has no validation of its own. Both
  fail before the authentication context is entered, so the state is exactly the one
  before the call and no provider call is made.
\<close>

theorem cancel_watch_without_run_id:
  assumes "py_getitem (config s) ''execution'' = Inr (PDict ex)"
    and "map_of ex ''run_id'' = None"
  shows "cancel ext s = (Inl (ValueError ''Can only cancel a DataFlow run.''), s)
       \<and> watch ext s = (Inl (KeyError ''run_id''), s)
       \<and> provider_calls (snd (cancel ext s)) = provider_calls s
       \<and> provider_calls (snd (watch ext s)) = provider_calls s"
proof -
  have g: "execution_get ''run_id'' PNone s = Inr PNone"
    using assms by (simp add: execution_get_mapping)
  have i: "execution_item ''run_id'' s = Inl (KeyError ''run_id'')"
    using assms by (simp add: execution_item_mapping)
  have c: "cancel ext s = (Inl (ValueError ''Can only cancel a DataFlow run.''), s)"
    using g by (simp add: cancel_def seqE_readE pure_def)
  have w: "watch ext s = (Inl (KeyError ''run_id''), s)"
    using i by (simp add: watch_def seqE_readE)
  show ?thesis by (simp add: c w)
qed

theorem cancel_watch_without_run_id_witness:
  "map_of example_execution ''run_id'' = None
   \<and> cancel responsive (fresh example_config) =
       (Inl (ValueError ''Can only cancel a DataFlow run.''), fresh example_config)
   \<and> watch responsive (fresh example_config) = (Inl (KeyError ''run_id''), fresh example_config)"
proof -
  have h1: "py_getitem (config (fresh example_config)) ''execution'' = Inr (PDict example_execution)"
    by (simp add: fresh_def example_config_def)
  have h2: "map_of example_execution ''run_id'' = None"
    by (simp add: example_execution_def)
  show ?thesis
    using cancel_watch_without_run_id[OF h1 h2, of responsive] h2 by simp
qed

text \<open>
  The claim as the spec words it fails at the spec's own example configuration, which
  has no \<open>run_id\<close>: the error of \<open>watch\<close> is a \<open>KeyError\<close>, not a \<open>ValueError\<close>.
\<close>

theorem watch_without_run_id_not_validation:
  "execution_item ''run_id'' (fresh example_config) = Inl (KeyError ''run_id'')
   \<and> fst (watch responsive (fresh example_config)) = Inl (KeyError ''run_id'')
   \<and> fst (watch responsive (fresh example_config)) \<noteq>
       Inl (ValueError ''Can only cancel a DataFlow run.'')"
  by (simp add: watch_def seqE_readE execution_item_def fresh_def example_config_def
      example_execution_def)

subsection \<open>\<open>run\<close> on an existing Job\<close>

text \<open>
  With a truthy \<open>execution.ocid\<close> the result of \<open>run\<close> is a function of the ocid, the
  provider's answers, and the state outside the configuration. The last line is the
  case in which the lookup and the submission both return.
\<close>

lemma run_existing_result:
  assumes "execution_get ''ocid'' PNone s = Inr ocid" and "truthy ocid"
  shows "run ext s =
     (let a = AuthEnter (auth_type s) (profile s); l = JobFromDataflowJob ocid in
      case respond ext (trace s @ [a]) l of
        Inl e \<Rightarrow> (Inl e, s\<lparr>trace := trace s @ [a, l, AuthExit]\<rparr>)
      | Inr j \<Rightarrow>
          (case respond ext (trace s @ [a, l]) (JobRun j) of
             Inl e \<Rightarrow> (Inl e, s\<lparr>trace := trace s @ [a, l, JobRun j, AuthExit]\<rparr>)
           | Inr r \<Rightarrow>
               (Inl (UnboundLocalError ''job_id''),
                s\<lparr>trace := trace s @ [a, l, JobRun j, AuthExit]\<rparr>)))"
proof -
  let ?s1 = "log (AuthEnter (auth_type s) (profile s)) s"
  obtain ex where ex: "py_getitem (config s) ''execution'' = Inr (PDict ex)"
    using assms(1)
    by (cases "py_getitem (config s) ''execution''"; cases "projr (py_getitem (config s) ''execution'')")
       (auto simp add: execution_get_def)
  have i: "execution_item ''ocid'' s = Inr ocid"
    using ex assms by (rule truthy_get_item)
  have c: "run_in_context ext ?s1 = run_existing ext ?s1"
    using assms by (intro run_in_context_truthy[of _ ocid]) (simp_all add: execution_log)
  have "execution_item ''ocid'' ?s1 = Inr ocid"
    using i by (simp add: execution_log)
  then have e: "run_existing ext ?s1 =
      (case respond ext (trace ?s1) (JobFromDataflowJob ocid) of
         Inl e \<Rightarrow> (Inl e, log (JobFromDataflowJob ocid) ?s1)
       | Inr j \<Rightarrow>
           (case respond ext (trace (log (JobFromDataflowJob ocid) ?s1)) (JobRun j) of
              Inl e \<Rightarrow> (Inl e, log (JobRun j) (log (JobFromDataflowJob ocid) ?s1))
            | Inr r \<Rightarrow>
                (Inr (None, Some r), log (JobRun j) (log (JobFromDataflowJob ocid) ?s1))))"
    by (simp add: run_existing_def seqE_readE seqE_call pure_def split: sum.splits)
  show ?thesis
    unfolding run_unfold c e
    by (simp add: report_def log_def Let_def split: sum.splits)
qed


text \<open>
  C1, on the path of an existing Job. Let \<open>execution.ocid\<close> be truthy. Then \<open>run\<close>
  never returns the mapping of Job id and Run id and never prints: it fails with the
  provider's error when the lookup or the submission raises, and with
  \<open>UnboundLocalError\<close> on \<open>job_id\<close> when both return, because this branch binds
  \<open>data_flow_id\<close> where the lines after the \<open>with\<close> block read \<open>job_id\<close>.
\<close>

theorem run_with_ocid_never_reports:
  assumes "execution_get ''ocid'' PNone s = Inr ocid" and "truthy ocid"
  shows "fst (run ext s) =
           Inl (case respond ext (trace s @ [AuthEnter (auth_type s) (profile s)])
                       (JobFromDataflowJob ocid) of
                  Inl e \<Rightarrow> e
                | Inr j \<Rightarrow>
                    (case respond ext (trace s @ [AuthEnter (auth_type s) (profile s),
                                                 JobFromDataflowJob ocid]) (JobRun j) of
                       Inl e \<Rightarrow> e
                     | Inr r \<Rightarrow> UnboundLocalError ''job_id''))
         \<and> out (snd (run ext s)) = out s"
  by (simp add: run_existing_result[OF assms] Let_def split: sum.splits)

theorem run_with_ocid_never_reports_witness:
  "execution_get ''ocid'' PNone (fresh (ocid_config example_infrastructure)) =
     Inr (PStr ''ocid1.dataflowapplication.oc1..aaaa'')
   \<and> truthy (PStr ''ocid1.dataflowapplication.oc1..aaaa'')
   \<and> fst (run responsive (fresh (ocid_config example_infrastructure))) =
       Inl (UnboundLocalError ''job_id'')
   \<and> out (snd (run responsive (fresh (ocid_config example_infrastructure)))) = []"
proof -
  have h1: "execution_get ''ocid'' PNone (fresh (ocid_config example_infrastructure)) =
      Inr (PStr ''ocid1.dataflowapplication.oc1..aaaa'')"
    by (simp add: execution_get_def fresh_def ocid_config_def)
  have h2: "truthy (PStr ''ocid1.dataflowapplication.oc1..aaaa'')" by simp
  show ?thesis
    using run_with_ocid_never_reports[OF h1 h2, of responsive] h1
    by (simp add: responsive_def fresh_def)
qed

text \<open>
  C6. Take two adapters whose \<open>execution.ocid\<close> is the same truthy value and which
  agree outside their configurations (authentication parameters, events so far,
  output so far); their configurations may differ in any other way, the
  infrastructure included. Then \<open>run\<close> gives the same result, the same trace and the
  same output in both, changes neither configuration, and its provider calls are the
  lookup of the Job \<open>ocid\<close> followed, when the lookup returns, by the submission of a
  run of that Job: no Job is created.
\<close>

theorem run_with_ocid_ignores_infrastructure:
  assumes "execution_get ''ocid'' PNone s1 = Inr ocid"
    and "execution_get ''ocid'' PNone s2 = Inr ocid"
    and "truthy ocid"
    and "auth_type s1 = auth_type s2" and "profile s1 = profile s2"
    and "trace s1 = trace s2" and "out s1 = out s2"
  shows "fst (run ext s1) = fst (run ext s2)
       \<and> trace (snd (run ext s1)) = trace (snd (run ext s2))
       \<and> out (snd (run ext s1)) = out (snd (run ext s2))
       \<and> config (snd (run ext s1)) = config s1
       \<and> config (snd (run ext s2)) = config s2
       \<and> provider_calls (snd (run ext s1)) =
           provider_calls s1 @ JobFromDataflowJob ocid #
             (case respond ext (trace s1 @ [AuthEnter (auth_type s1) (profile s1)])
                     (JobFromDataflowJob ocid) of
                Inl e \<Rightarrow> [] | Inr j \<Rightarrow> [JobRun j])"
  using assms(4-7)
  by (simp add: run_existing_result[OF assms(1,3)] run_existing_result[OF assms(2,3)]
      provider_calls_def is_provider_call_def Let_def split: sum.splits)

theorem run_with_ocid_ignores_infrastructure_witness:
  "ocid_config example_infrastructure \<noteq> ocid_config []
   \<and> truthy (PStr ''ocid1.dataflowapplication.oc1..aaaa'')
   \<and> fst (run responsive (fresh (ocid_config example_infrastructure))) =
       fst (run responsive (fresh (ocid_config [])))
   \<and> trace (snd (run responsive (fresh (ocid_config example_infrastructure)))) =
       trace (snd (run responsive (fresh (ocid_config []))))
   \<and> provider_calls (snd (run responsive (fresh (ocid_config example_infrastructure)))) =
       [JobFromDataflowJob (PStr ''ocid1.dataflowapplication.oc1..aaaa''), JobRun ''job-0'']"
proof -
  have h1: "execution_get ''ocid'' PNone (fresh (ocid_config example_infrastructure)) =
      Inr (PStr ''ocid1.dataflowapplication.oc1..aaaa'')"
    by (simp add: execution_get_def fresh_def ocid_config_def)
  have h2: "execution_get ''ocid'' PNone (fresh (ocid_config [])) =
      Inr (PStr ''ocid1.dataflowapplication.oc1..aaaa'')"
    by (simp add: execution_get_def fresh_def ocid_config_def)
  have h3: "truthy (PStr ''ocid1.dataflowapplication.oc1..aaaa'')" by simp
  have h4: "auth_type (fresh (ocid_config example_infrastructure)) = auth_type (fresh (ocid_config []))"
    and h5: "profile (fresh (ocid_config example_infrastructure)) = profile (fresh (ocid_config []))"
    and h6: "trace (fresh (ocid_config example_infrastructure)) = trace (fresh (ocid_config []))"
    and h7: "out (fresh (ocid_config example_infrastructure)) = out (fresh (ocid_config []))"
    by (simp_all add: fresh_def)
  have d: "ocid_config example_infrastructure \<noteq> ocid_config []"
    by (simp add: ocid_config_def example_infrastructure_def)
  have p: "provider_calls (fresh cfg) = []" for cfg
    by (simp add: provider_calls_def fresh_def)
  have r: "respond responsive tr (JobFromDataflowJob i) = Inr ''job-0''" for tr i
    by (simp add: responsive_def)
  show ?thesis
    using run_with_ocid_ignores_infrastructure[OF h1 h2 h3 h4 h5 h6 h7, of responsive] d
    by (simp add: p r)
qed


subsection \<open>\<open>run\<close> creating a Job: the stages on mappings\<close>

lemma store_infra_execution:
  "py_getitem (config (store_infra i s)) ''execution'' = py_getitem (config s) ''execution''"
  by (cases "config s") (simp_all add: store_infra_def map_of_map_entry)

lemma execution_store_infra:
  "execution_get k d (store_infra i s) = execution_get k d s"
  "execution_item k (store_infra i s) = execution_item k s"
  by (simp_all add: execution_get_def execution_item_def store_infra_execution)

lemma map_entry_twice:
  "AList.map_entry k (\<lambda>old. b) (AList.map_entry k (\<lambda>old. a) d) = AList.map_entry k (\<lambda>old. b) d"
  by (induction d) auto

lemma store_infra_twice: "store_infra j (store_infra i s) = store_infra j s"
  by (cases "config s") (simp_all add: store_infra_def map_entry_twice)

lemma store_infra_fields:
  "auth_type (store_infra i s) = auth_type s" "profile (store_infra i s) = profile s"
  "trace (store_infra i s) = trace s" "out (store_infra i s) = out s"
  by (simp_all add: store_infra_def)

lemma library_holds_fields:
  "auth_type (library_holds ext s) = auth_type s" "profile (library_holds ext s) = profile s"
  "trace (library_holds ext s) = trace s" "out (library_holds ext s) = out s"
  by (simp_all add: library_holds_def)

lemma library_holds_execution:
  "py_getitem (config (library_holds ext s)) ''execution'' = py_getitem (config s) ''execution''"
  by (cases "config s") (simp_all add: library_holds_def map_of_map_entry)

lemma execution_library_holds:
  "execution_get k d (library_holds ext s) = execution_get k d s"
  "execution_item k (library_holds ext s) = execution_item k s"
  by (simp_all add: execution_get_def execution_item_def library_holds_execution)

lemma seqE_call_holding:
  "seqE (call_holding ext ev) f s =
     (case respond ext (trace s) ev of
        Inl e \<Rightarrow> (Inl e, library_holds ext (log ev s))
      | Inr a \<Rightarrow> f a (library_holds ext (log ev s)))"
  by (simp add: seqE_def call_holding_def split: sum.splits)

lemma script_path_spec_mapping:
  assumes "py_getitem (config s) ''execution'' = Inr (PDict ex)"
    and "map_of ex ''source_folder'' = Some (PStr sf)"
    and "map_of ex ''entrypoint'' = Some (PStr ep)"
  shows "script_path_spec s = Inr (PDict [(''scriptPathURI'', PStr (posix_join sf ep))])"
  using assms by (simp add: script_path_spec_def execution_item_mapping)

lemma take_script_bucket_mapping:
  assumes "map_of infra ''script_bucket'' = Some v"
  shows "take_script_bucket (PDict infra) (PDict rt) s =
     (Inr (PDict (AList.delete ''script_bucket'' infra), PDict (AList.update ''scriptBucket'' v rt)),
      store_infra (PDict (AList.delete ''script_bucket'' infra)) s)"
  using assms by (simp add: take_script_bucket_def)

lemma set_args_mapping:
  assumes "py_getitem (config s) ''execution'' = Inr (PDict ex)"
    and "execution_get ''command'' PNone s = Inr c"
  shows "set_args (PDict rt) s =
     (if truthy c then
        (case shlex_split c of
           Inl e \<Rightarrow> Inl e
         | Inr args \<Rightarrow> Inr (PDict (AList.update ''args'' args rt)))
      else Inr (PDict rt))"
proof (cases "truthy c")
  case True
  then have "execution_item ''command'' s = Inr c"
    using assms by (intro truthy_get_item)
  then show ?thesis
    using assms(2) True by (simp add: set_args_def split: sum.splits)
next
  case False
  then show ?thesis using assms(2) by (simp add: set_args_def)
qed

lemma delete_absent: "map_of d k = None \<Longrightarrow> AList.delete k d = d"
  by (simp add: map_of_eq_None_iff)

lemma set_archive_mapping:
  assumes "py_getitem (config s) ''execution'' = Inr (PDict ex)"
    and "execution_get ''archive'' PNone s = Inr a"
  shows "set_archive (PDict infra) (PDict rt) s =
     (if truthy a then
        (Inr (PDict (AList.delete ''archive_bucket'' infra),
              PDict (AList.update ''archiveBucket''
                       (case map_of infra ''archive_bucket'' of None \<Rightarrow> PNone | Some v \<Rightarrow> v)
                       (AList.update ''archiveUri'' a rt))),
         store_infra (PDict (AList.delete ''archive_bucket'' infra)) s)
      else (Inr (PDict infra, PDict rt), s))"
proof (cases "truthy a")
  case True
  then have "execution_item ''archive'' s = Inr a"
    using assms by (intro truthy_get_item)
  then show ?thesis
    using assms(2) True
    by (simp add: set_archive_def delete_absent split: option.splits)
next
  case False
  then show ?thesis using assms(2) by (simp add: set_archive_def)
qed

text \<open>
  Where the configuration passes validation and the script path and the arguments can
  be built, \<open>run\<close> reaches line 152 with \<open>script_bucket\<close> (and \<open>archive_bucket\<close>, when
  \<open>archive\<close> is set) already removed from the stored infrastructure.
\<close>

lemma run_new_prepared:
  fixes infra :: "(string \<times> pyval) list" and a c sb args :: pyval and sf ep :: string
  defines "infra1 \<equiv> AList.delete ''script_bucket'' infra"
  defines "infra2 \<equiv> (if truthy a then AList.delete ''archive_bucket'' infra1 else infra1)"
  defines "rt1 \<equiv> [(''scriptPathURI'', PStr (posix_join sf ep)), (''scriptBucket'', sb)]"
  defines "rt2 \<equiv> (if truthy c then AList.update ''args'' args rt1 else rt1)"
  defines "rt3 \<equiv> (if truthy a then
                     AList.update ''archiveBucket''
                       (case map_of infra1 ''archive_bucket'' of None \<Rightarrow> PNone | Some v \<Rightarrow> v)
                       (AList.update ''archiveUri'' a rt2)
                   else rt2)"
  assumes ex: "py_getitem (config s) ''execution'' = Inr (PDict ex)"
    and infra: "py_get (config s) ''infrastructure'' (PDict []) = Inr (PDict infra)"
    and req: "\<forall>k \<in> set REQUIRED_FIELDS. map_of infra k \<noteq> None"
    and sb: "map_of infra ''script_bucket'' = Some sb"
    and sf: "map_of ex ''source_folder'' = Some (PStr sf)"
    and ep: "map_of ex ''entrypoint'' = Some (PStr ep)"
    and c: "execution_get ''command'' PNone s = Inr c"
    and args: "truthy c \<Longrightarrow> shlex_split c = Inr args"
    and a: "execution_get ''archive'' PNone s = Inr a"
  shows "run_new ext s =
           seqE (parse_configuration ext (PDict infra2))
                (\<lambda>infra3. create_and_submit ext infra3 (PDict rt3))
                (store_infra (PDict infra2) s)"
proof -
  let ?s1 = "store_infra (PDict infra1) s"
  have v: "validate_infra (PDict infra) = Inr ()"
    using req by (simp add: validate_infra_mapping)
  have p: "script_path_spec s = Inr (PDict [(''scriptPathURI'', PStr (posix_join sf ep))])"
    using ex sf ep by (rule script_path_spec_mapping)
  have t: "take_script_bucket (PDict infra) (PDict [(''scriptPathURI'', PStr (posix_join sf ep))]) s =
      (Inr (PDict infra1, PDict rt1), ?s1)"
    using sb by (simp add: take_script_bucket_mapping infra1_def rt1_def)
  have ex1: "py_getitem (config ?s1) ''execution'' = Inr (PDict ex)"
    using ex by (simp add: store_infra_execution)
  have "set_args (PDict rt1) ?s1 =
      (if truthy c then
         (case shlex_split c of
            Inl e \<Rightarrow> Inl e
          | Inr args \<Rightarrow> Inr (PDict (AList.update ''args'' args rt1)))
       else Inr (PDict rt1))"
    using ex1 c by (intro set_args_mapping) (simp_all add: execution_store_infra)
  then have sa: "set_args (PDict rt1) ?s1 = Inr (PDict rt2)"
    using args by (simp add: rt2_def)
  have "set_archive (PDict infra1) (PDict rt2) ?s1 =
      (if truthy a then
         (Inr (PDict (AList.delete ''archive_bucket'' infra1),
               PDict (AList.update ''archiveBucket''
                        (case map_of infra1 ''archive_bucket'' of None \<Rightarrow> PNone | Some v \<Rightarrow> v)
                        (AList.update ''archiveUri'' a rt2))),
          store_infra (PDict (AList.delete ''archive_bucket'' infra1)) ?s1)
       else (Inr (PDict infra1, PDict rt2), ?s1))"
    using ex1 a by (intro set_archive_mapping) (simp_all add: execution_store_infra)
  then have ar: "set_archive (PDict infra1) (PDict rt2) ?s1 =
      (Inr (PDict infra2, PDict rt3), store_infra (PDict infra2) s)"
    by (simp add: infra2_def rt3_def store_infra_twice)
  show ?thesis
    using infra
    by (simp add: run_new_def seqE_readE seqE_pure v p seqE_def[of "take_script_bucket _ _"] t sa
        seqE_def[of "set_archive _ _"] ar)
qed


lemma read_tokens_example: "shlex_split (PStr ''--x 1'') = Inr (PList [PStr ''--x'', PStr ''1''])"
  by (simp add: whitespace_def quotes_def escape_def emit_def)

text \<open>
  C5. For the configuration of the spec's example, whatever the provider answers and
  whatever the rest of the adapter's state, the first provider call of \<open>run\<close> is the
  creation of a Job whose runtime spec is exactly
  \<open>{scriptPathURI: "/a/job.py", scriptBucket: "sb", args: ["--x", "1"]}\<close>; its
  infrastructure spec is the configured one without \<open>script_bucket\<close>, and the overwrite
  flag is \<open>False\<close>. (\<open>os.path.join\<close> is the POSIX one.)
\<close>

theorem run_example_runtime_descriptor:
  "\<exists>rest.
     trace (snd (run ext \<lparr>config = example_config, auth_type = auth, profile = prof,
                          trace = tr, out = ou\<rparr>)) =
       tr @ AuthEnter auth prof #
         JobCreate
           (PDict [(''compartment_id'', PStr ''c1''), (''driver_shape'', PStr ''d''),
                   (''executor_shape'', PStr ''e''), (''logs_bucket_uri'', PStr ''b'')])
           (PDict [(''scriptPathURI'', PStr ''/a/job.py''), (''scriptBucket'', PStr ''sb''),
                   (''args'', PList [PStr ''--x'', PStr ''1''])])
           (PBool False) # rest"
proof -
  let ?s = "\<lparr>config = example_config, auth_type = auth, profile = prof, trace = tr, out = ou\<rparr>"
  let ?s1 = "log (AuthEnter auth prof) ?s"
  let ?infra2 = "[(''compartment_id'', PStr ''c1''), (''driver_shape'', PStr ''d''),
                  (''executor_shape'', PStr ''e''), (''logs_bucket_uri'', PStr ''b'')]"
  let ?rt = "[(''scriptPathURI'', PStr ''/a/job.py''), (''scriptBucket'', PStr ''sb''),
              (''args'', PList [PStr ''--x'', PStr ''1''])]"
  have ex: "py_getitem (config ?s1) ''execution'' = Inr (PDict example_execution)"
    by (simp add: log_fields example_config_def)
  have infra: "py_get (config ?s1) ''infrastructure'' (PDict []) = Inr (PDict example_infrastructure)"
    by (simp add: log_fields example_config_def)
  have req: "\<forall>k \<in> set REQUIRED_FIELDS. map_of example_infrastructure k \<noteq> None"
    by (simp add: REQUIRED_FIELDS_def example_infrastructure_def)
  have sb: "map_of example_infrastructure ''script_bucket'' = Some (PStr ''sb'')"
    by (simp add: example_infrastructure_def)
  have sf: "map_of example_execution ''source_folder'' = Some (PStr ''/a'')"
    and ep: "map_of example_execution ''entrypoint'' = Some (PStr ''job.py'')"
    by (simp_all add: example_execution_def)
  have c: "execution_get ''command'' PNone ?s1 = Inr (PStr ''--x 1'')"
    by (simp add: execution_get_mapping[OF ex] example_execution_def)
  have a: "execution_get ''archive'' PNone ?s1 = Inr PNone"
    by (simp add: execution_get_mapping[OF ex] example_execution_def)
  have o: "execution_get ''ocid'' PNone ?s1 = Inr PNone"
    by (simp add: execution_get_mapping[OF ex] example_execution_def)
  have ow: "execution_get ''overwrite'' (PBool False)
      (library_holds ext (store_infra (PDict ?infra2) ?s1)) = Inr (PBool False)"
    by (simp add: execution_library_holds execution_store_infra execution_get_mapping[OF ex]
        example_execution_def)
  have n: "run_new ext ?s1 =
      seqE (parse_configuration ext (PDict ?infra2))
           (\<lambda>infra3. create_and_submit ext infra3 (PDict ?rt))
           (store_infra (PDict ?infra2) ?s1)"
    using run_new_prepared[OF ex infra req sb sf ep c read_tokens_example a, of ext]
    by (simp add: example_infrastructure_def posix_join_def)
  have r: "run_in_context ext ?s1 = run_new ext ?s1"
    using o by (rule run_in_context_falsy) simp
  have p: "parse_configuration ext (PDict ?infra2) s' = (Inr (PDict ?infra2), s')" for s'
    by (simp add: parse_configuration_def)
  show ?thesis
    unfolding run_unfold
    by (simp add: r n seqE_def[of "parse_configuration _ _"] p create_and_submit_def seqE_readE
        ow seqE_call_holding pure_def report_def log_fields store_infra_fields
        library_holds_fields print_line_def split: sum.splits)
qed

text \<open>
  C10. Let \<open>execution.ocid\<close> be absent or falsy, let the configuration pass the
  validation, let the script path and the arguments be built without error, and let
  \<open>infrastructure.configuration\<close> be a document on which \<open>json.loads\<close> raises \<open>e\<close>.
  Then \<open>run\<close> fails with \<open>e\<close>, no provider call has been made, and the configuration
  is no longer the one before the call: its infrastructure mapping has lost
  \<open>script_bucket\<close>, and \<open>archive_bucket\<close> too when \<open>execution.archive\<close> is truthy.
\<close>

theorem run_bad_json_after_mutation:
  assumes cfg: "config s = PDict cfg"
    and ex: "map_of cfg ''execution'' = Some (PDict ex)"
    and infra: "map_of cfg ''infrastructure'' = Some (PDict infra)"
    and ocid: "execution_get ''ocid'' PNone s = Inr ocid" and falsy: "\<not> truthy ocid"
    and req: "\<forall>k \<in> set REQUIRED_FIELDS. map_of infra k \<noteq> None"
    and sf: "map_of ex ''source_folder'' = Some (PStr sf)"
    and ep: "map_of ex ''entrypoint'' = Some (PStr ep)"
    and c: "execution_get ''command'' PNone s = Inr c"
    and args: "truthy c \<longrightarrow> (\<exists>args. shlex_split c = Inr args)"
    and a: "execution_get ''archive'' PNone s = Inr a"
    and doc: "map_of infra ''configuration'' = Some doc"
    and bad: "json_loads ext doc = Inl e"
  shows "fst (run ext s) = Inl e
       \<and> config (snd (run ext s)) =
           PDict (AList.map_entry ''infrastructure''
                    (\<lambda>old. PDict (if truthy a
                                   then AList.delete ''archive_bucket''
                                          (AList.delete ''script_bucket'' infra)
                                   else AList.delete ''script_bucket'' infra)) cfg)
       \<and> config (snd (run ext s)) \<noteq> config s
       \<and> provider_calls (snd (run ext s)) = provider_calls s"
proof -
  let ?s1 = "log (AuthEnter (auth_type s) (profile s)) s"
  let ?infra2 = "if truthy a then AList.delete ''archive_bucket'' (AList.delete ''script_bucket'' infra)
                 else AList.delete ''script_bucket'' infra"
  obtain sb where sb: "map_of infra ''script_bucket'' = Some sb"
    using req by (auto simp add: REQUIRED_FIELDS_def)
  obtain args' where args': "truthy c \<Longrightarrow> shlex_split c = Inr args'"
    using args by auto
  have ex1: "py_getitem (config ?s1) ''execution'' = Inr (PDict ex)"
    using cfg ex by (simp add: log_fields)
  have infra1: "py_get (config ?s1) ''infrastructure'' (PDict []) = Inr (PDict infra)"
    using cfg infra by (simp add: log_fields)
  have c1: "execution_get ''command'' PNone ?s1 = Inr c"
    and a1: "execution_get ''archive'' PNone ?s1 = Inr a"
    and o1: "execution_get ''ocid'' PNone ?s1 = Inr ocid"
    using c a ocid by (simp_all add: execution_log)
  obtain rt where n: "run_new ext ?s1 =
      seqE (parse_configuration ext (PDict ?infra2))
           (\<lambda>infra3. create_and_submit ext infra3 (PDict rt))
           (store_infra (PDict ?infra2) ?s1)"
    using run_new_prepared[OF ex1 infra1 req sb sf ep c1 args' a1, of ext] by auto
  have d: "map_of ?infra2 ''configuration'' = Some doc"
    using doc by simp
  have p: "parse_configuration ext (PDict ?infra2) s' = (Inl e, s')" for s'
    using d bad by (simp add: parse_configuration_def)
  have r: "run_in_context ext ?s1 = run_new ext ?s1"
    using o1 falsy by (rule run_in_context_falsy)
  have res: "run ext s = (Inl e, log AuthExit (store_infra (PDict ?infra2) ?s1))"
    unfolding run_unfold by (simp add: r n seqE_def[of "parse_configuration _ _"] p)
  have conf: "config (snd (run ext s)) =
      PDict (AList.map_entry ''infrastructure'' (\<lambda>old. PDict ?infra2) cfg)"
    using cfg by (simp add: res log_fields store_infra_def)
  have "map_of (AList.map_entry ''infrastructure'' (\<lambda>old. PDict ?infra2) cfg) ''infrastructure'' =
      Some (PDict ?infra2)"
    using infra by (simp add: map_of_map_entry)
  moreover have "map_of ?infra2 ''script_bucket'' = None"
    by (simp add: AList.delete_conv')
  then have "PDict ?infra2 \<noteq> PDict infra"
    using sb by auto
  ultimately have ne: "config (snd (run ext s)) \<noteq> config s"
    using infra cfg conf by auto
  have calls: "provider_calls (snd (run ext s)) = provider_calls s"
    by (simp add: res provider_calls_def log_fields store_infra_fields is_provider_call_def)
  show ?thesis
    using res conf ne calls by simp
qed


theorem run_bad_json_after_mutation_witness:
  "json_loads responsive (PStr ''{'') = Inl JSONDecodeError
   \<and> fst (run responsive (fresh bad_json_config)) = Inl JSONDecodeError
   \<and> config (snd (run responsive (fresh bad_json_config))) =
       PDict [(''execution'',
               PDict [(''source_folder'', PStr ''/a''), (''entrypoint'', PStr ''job.py''),
                      (''archive'', PStr ''archive.zip'')]),
              (''infrastructure'',
               PDict [(''compartment_id'', PStr ''c1''), (''driver_shape'', PStr ''d''),
                      (''executor_shape'', PStr ''e''), (''logs_bucket_uri'', PStr ''b''),
                      (''configuration'', PStr ''{'')])]
   \<and> config (snd (run responsive (fresh bad_json_config))) \<noteq> bad_json_config
   \<and> provider_calls (snd (run responsive (fresh bad_json_config))) = []"
proof -
  let ?ex = "[(''source_folder'', PStr ''/a''), (''entrypoint'', PStr ''job.py''),
              (''archive'', PStr ''archive.zip'')]"
  let ?infra = "example_infrastructure @
                [(''archive_bucket'', PStr ''ab''), (''configuration'', PStr ''{'')]"
  let ?cfg = "[(''execution'', PDict ?ex), (''infrastructure'', PDict ?infra)]"
  have cfg: "config (fresh bad_json_config) = PDict ?cfg"
    by (simp add: fresh_def bad_json_config_def)
  have ex: "map_of ?cfg ''execution'' = Some (PDict ?ex)" by simp
  have infra: "map_of ?cfg ''infrastructure'' = Some (PDict ?infra)" by simp
  have g: "py_getitem (config (fresh bad_json_config)) ''execution'' = Inr (PDict ?ex)"
    by (simp add: cfg)
  have ocid: "execution_get ''ocid'' PNone (fresh bad_json_config) = Inr PNone"
    by (simp add: execution_get_mapping[OF g])
  have falsy: "\<not> truthy PNone" by simp
  have req: "\<forall>k \<in> set REQUIRED_FIELDS. map_of ?infra k \<noteq> None"
    by (simp add: REQUIRED_FIELDS_def example_infrastructure_def)
  have sf: "map_of ?ex ''source_folder'' = Some (PStr ''/a'')"
    and ep: "map_of ?ex ''entrypoint'' = Some (PStr ''job.py'')"
    by simp_all
  have c: "execution_get ''command'' PNone (fresh bad_json_config) = Inr PNone"
    by (simp add: execution_get_mapping[OF g])
  have args: "truthy PNone \<longrightarrow> (\<exists>args. shlex_split PNone = Inr args)" by simp
  have a: "execution_get ''archive'' PNone (fresh bad_json_config) = Inr (PStr ''archive.zip'')"
    by (simp add: execution_get_mapping[OF g])
  have doc: "map_of ?infra ''configuration'' = Some (PStr ''{'')"
    by (simp add: example_infrastructure_def)
  have bad: "json_loads responsive (PStr ''{'') = Inl JSONDecodeError"
    by (simp add: responsive_def)
  have p: "provider_calls (fresh bad_json_config) = []"
    by (simp add: provider_calls_def fresh_def)
  have f: "config (fresh bad_json_config) = bad_json_config"
    by (simp add: fresh_def)
  show ?thesis
    using run_bad_json_after_mutation[OF cfg ex infra ocid falsy req sf ep c args a doc bad] bad
    by (auto simp add: p f example_infrastructure_def)
qed

subsection \<open>What the operations leave of the configuration\<close>

text \<open>
  A view \<open>g\<close> of the configuration that every step of a computation leaves as it is, is
  left as it is by the computation. With \<open>g\<close> the identity this is the whole
  configuration; with \<open>g\<close> the lookup of a key it is one entry.
\<close>

lemma seqE_frame:
  assumes "\<And>s. g (config (snd (m s))) = g (config s)"
    and "\<And>a s. g (config (snd (f a s))) = g (config s)"
  shows "g (config (snd (seqE m f s))) = g (config s)"
proof (cases "m s")
  case (Pair r s')
  then have "g (config s') = g (config s)"
    using assms(1)[of s] by simp
  then show ?thesis
    using Pair assms(2) by (cases r) (simp_all add: seqE_def)
qed

lemma with_auth_frame:
  assumes "\<And>s. g (config (snd (body s))) = g (config s)"
  shows "g (config (snd (with_auth body s))) = g (config s)"
proof -
  have "g (config (snd (body (log (AuthEnter (auth_type s) (profile s)) s)))) = g (config s)"
    using assms by (simp add: log_fields)
  then show ?thesis
    by (cases "body (log (AuthEnter (auth_type s) (profile s)) s)")
       (simp add: with_auth_def log_fields)
qed

lemma basic_frame:
  "g (config (snd (readE r s))) = g (config s)"
  "g (config (snd (pure x s))) = g (config s)"
  "g (config (snd (call ext ev s))) = g (config s)"
  by (simp_all add: readE_def pure_def call_def log_fields)

lemma lookup_then_frame:
  "g (config (snd (with_auth (seqE (call ext ev) (\<lambda>h. seqE (call ext (act h)) (\<lambda>u. pure (Inr ())))) s))) =
   g (config s)"
  by (intro with_auth_frame seqE_frame basic_frame)

lemma init_frame: "g (config (snd (init ext uri overwrite runtime_type kwargs s))) = g (config s)"
  unfolding init_def init_in_context_def
  by (intro with_auth_frame seqE_frame basic_frame)

lemma cancel_frame: "g (config (snd (cancel ext s))) = g (config s)"
proof -
  have "g (config (snd ((if \<not> truthy r then pure (Inl (ValueError ''Can only cancel a DataFlow run.''))
      else seqE (readE (execution_item ''run_id'')) (delete_run ext)) s'))) = g (config s')" for r s'
    unfolding delete_run_def
    by (cases "truthy r") (auto intro!: seqE_frame basic_frame lookup_then_frame)
  then show ?thesis
    unfolding cancel_def by (intro seqE_frame basic_frame)
qed

lemma delete_frame: "g (config (snd (delete ext s))) = g (config s)"
proof -
  have r: "g (config (snd ((if truthy r then seqE (readE (execution_item ''run_id'')) (delete_run ext)
      else pure (Inr ())) s'))) = g (config s')" for r s'
    unfolding delete_run_def
    by (cases "truthy r") (auto intro!: seqE_frame basic_frame lookup_then_frame)
  have "g (config (snd ((if truthy i then seqE (readE (execution_item ''id'')) (delete_job ext)
      else seqE (readE (execution_get ''run_id'' PNone)) (\<lambda>r.
             if truthy r then seqE (readE (execution_item ''run_id'')) (delete_run ext)
             else pure (Inr ()))) s'))) = g (config s')" for i s'
    unfolding delete_job_def
    by (cases "truthy i") (auto intro!: seqE_frame basic_frame lookup_then_frame r)
  then show ?thesis
    unfolding delete_def by (intro seqE_frame basic_frame)
qed

lemma watch_frame: "g (config (snd (watch ext s))) = g (config s)"
  unfolding watch_def
  by (intro seqE_frame basic_frame lookup_then_frame)

lemma report_frame: "g (config (snd (report locals s))) = g (config s)"
  by (simp add: report_def print_line_def split: option.splits)

lemma run_existing_config:
  assumes "execution_get ''ocid'' PNone s = Inr ocid" and "truthy ocid"
  shows "config (snd (run ext s)) = config s"
  by (simp add: run_existing_result[OF assms] Let_def split: sum.splits)

lemma run_config_in_context:
  "config (snd (run ext s)) =
   config (snd (run_in_context ext (log (AuthEnter (auth_type s) (profile s)) s)))"
  unfolding run_unfold
  by (cases "run_in_context ext (log (AuthEnter (auth_type s) (profile s)) s)")
     (auto simp add: log_fields report_frame[where g = "\<lambda>c. c"] split: sum.splits)

text \<open>
  On the path that creates a Job the configuration is still the one before the call
  when the validation fails, and when the script path cannot be built: both come before
  the first \<open>pop\<close>.
\<close>

lemma run_new_invalid_config:
  assumes "py_get (config s) ''infrastructure'' (PDict []) = Inr infra"
    and "validate_infra infra = Inl e"
  shows "config (snd (run_new ext s)) = config s"
  using assms by (simp add: run_new_def seqE_readE seqE_pure)

lemma run_new_no_script_path_config:
  assumes "script_path_spec s = Inl e"
  shows "config (snd (run_new ext s)) = config s"
  using assms by (simp add: run_new_def seqE_readE seqE_pure split: sum.splits)

lemma run_falsy_config:
  assumes "execution_get ''ocid'' PNone s = Inr ocid" and "\<not> truthy ocid"
    and "\<And>s'. config s' = config s \<Longrightarrow> config (snd (run_new ext s')) = config s'"
  shows "config (snd (run ext s)) = config s"
proof -
  let ?s1 = "log (AuthEnter (auth_type s) (profile s)) s"
  have "run_in_context ext ?s1 = run_new ext ?s1"
    using assms(1,2) by (intro run_in_context_falsy[of _ ocid]) (simp_all add: execution_log)
  then show ?thesis
    using assms(3)[of ?s1] by (simp add: run_config_in_context log_fields)
qed

lemma parse_configuration_mapping:
  "parse_configuration ext (PDict infra) s =
     (case map_of infra ''configuration'' of
        None \<Rightarrow> (Inr (PDict infra), s)
      | Some doc \<Rightarrow>
          (case json_loads ext doc of
             Inl e \<Rightarrow> (Inl e, s)
           | Inr v \<Rightarrow>
               (Inr (PDict (AList.update ''configuration'' v infra)),
                store_infra (PDict (AList.update ''configuration'' v infra)) s)))"
  by (simp add: parse_configuration_def split: option.splits sum.splits)

lemma map_entry_same: "AList.map_entry k (\<lambda>v. v) d = d"
  by (induction d) auto

lemma library_holds_responsive: "library_holds responsive s = s"
  by (cases "config s") (simp_all add: library_holds_def responsive_def map_entry_same)

lemma run_example_result:
  "run responsive (fresh example_config) =
     (Inr (PDict [(''job_id'', PStr ''job-1''), (''run_id'', PStr ''run-1'')]),
      \<lparr>config =
         PDict [(''execution'', PDict example_execution),
                (''infrastructure'',
                 PDict [(''compartment_id'', PStr ''c1''), (''driver_shape'', PStr ''d''),
                        (''executor_shape'', PStr ''e''), (''logs_bucket_uri'', PStr ''b'')])],
       auth_type = PNone, profile = PNone,
       trace =
         [AuthEnter PNone PNone,
          JobCreate
            (PDict [(''compartment_id'', PStr ''c1''), (''driver_shape'', PStr ''d''),
                    (''executor_shape'', PStr ''e''), (''logs_bucket_uri'', PStr ''b'')])
            (PDict [(''scriptPathURI'', PStr ''/a/job.py''), (''scriptBucket'', PStr ''sb''),
                    (''args'', PList [PStr ''--x'', PStr ''1''])])
            (PBool False),
          JobRun ''job-1'', AuthExit],
       out = [''DataFlow App ID: job-1'', ''DataFlow Run ID: run-1'']\<rparr>)"
proof -
  let ?s1 = "log (AuthEnter PNone PNone) (fresh example_config)"
  let ?infra2 = "[(''compartment_id'', PStr ''c1''), (''driver_shape'', PStr ''d''),
                  (''executor_shape'', PStr ''e''), (''logs_bucket_uri'', PStr ''b'')]"
  let ?rt = "[(''scriptPathURI'', PStr ''/a/job.py''), (''scriptBucket'', PStr ''sb''),
              (''args'', PList [PStr ''--x'', PStr ''1''])]"
  have ex: "py_getitem (config ?s1) ''execution'' = Inr (PDict example_execution)"
    by (simp add: log_fields example_config_def fresh_def)
  have infra: "py_get (config ?s1) ''infrastructure'' (PDict []) = Inr (PDict example_infrastructure)"
    by (simp add: log_fields example_config_def fresh_def)
  have req: "\<forall>k \<in> set REQUIRED_FIELDS. map_of example_infrastructure k \<noteq> None"
    by (simp add: REQUIRED_FIELDS_def example_infrastructure_def)
  have sb: "map_of example_infrastructure ''script_bucket'' = Some (PStr ''sb'')"
    by (simp add: example_infrastructure_def)
  have sf: "map_of example_execution ''source_folder'' = Some (PStr ''/a'')"
    and ep: "map_of example_execution ''entrypoint'' = Some (PStr ''job.py'')"
    by (simp_all add: example_execution_def)
  have c: "execution_get ''command'' PNone ?s1 = Inr (PStr ''--x 1'')"
    by (simp add: execution_get_mapping[OF ex] example_execution_def)
  have a: "execution_get ''archive'' PNone ?s1 = Inr PNone"
    by (simp add: execution_get_mapping[OF ex] example_execution_def)
  have o: "execution_get ''ocid'' PNone ?s1 = Inr PNone"
    by (simp add: execution_get_mapping[OF ex] example_execution_def)
  have ow: "execution_get ''overwrite'' (PBool False) (store_infra (PDict ?infra2) ?s1) =
      Inr (PBool False)"
    by (simp add: execution_store_infra execution_get_mapping[OF ex] example_execution_def)
  have n: "run_new responsive ?s1 =
      seqE (parse_configuration responsive (PDict ?infra2))
           (\<lambda>infra3. create_and_submit responsive infra3 (PDict ?rt))
           (store_infra (PDict ?infra2) ?s1)"
    using run_new_prepared[OF ex infra req sb sf ep c read_tokens_example a, of responsive]
    by (simp add: example_infrastructure_def posix_join_def)
  have r: "run_in_context responsive ?s1 = run_new responsive ?s1"
    using o by (rule run_in_context_falsy) simp
  have q: "respond responsive tr (JobCreate i rt ov) = Inr ''job-1''"
    "respond responsive tr (JobRun j) = Inr ''run-1''" for tr i rt ov j
    by (simp_all add: responsive_def)
  have f: "auth_type (fresh example_config) = PNone" "profile (fresh example_config) = PNone"
    by (simp_all add: fresh_def)
  show ?thesis
    unfolding run_unfold f r n
    by (simp add: seqE_def[of "parse_configuration _ _"] parse_configuration_mapping
        create_and_submit_def library_holds_responsive seqE_readE ow seqE_call_holding q
        pure_def report_def)
       (simp add: log_def store_infra_def print_line_def fresh_def example_config_def)
qed

text \<open>
  C4 fails as the spec words it: at the spec's own example configuration \<open>run\<close> returns
  the two ids, and the configuration held by the adapter afterwards has no
  \<open>script_bucket\<close> in its infrastructure mapping any more.
\<close>

theorem run_changes_configuration:
  "fst (run responsive (fresh example_config)) =
     Inr (PDict [(''job_id'', PStr ''job-1''), (''run_id'', PStr ''run-1'')])
   \<and> py_getitem (config (fresh example_config)) ''infrastructure'' =
       Inr (PDict [(''compartment_id'', PStr ''c1''), (''driver_shape'', PStr ''d''),
                   (''executor_shape'', PStr ''e''), (''logs_bucket_uri'', PStr ''b''),
                   (''script_bucket'', PStr ''sb'')])
   \<and> py_getitem (config (snd (run responsive (fresh example_config)))) ''infrastructure'' =
       Inr (PDict [(''compartment_id'', PStr ''c1''), (''driver_shape'', PStr ''d''),
                   (''executor_shape'', PStr ''e''), (''logs_bucket_uri'', PStr ''b'')])
   \<and> config (snd (run responsive (fresh example_config))) \<noteq> config (fresh example_config)"
  by (simp add: run_example_result)
     (simp add: fresh_def example_config_def example_infrastructure_def)

text \<open>
  C4, as the code has it. \<open>init\<close>, \<open>apply\<close>, \<open>cancel\<close>, \<open>delete\<close> and \<open>watch\<close> leave the
  configuration as it is. So does \<open>run\<close> when \<open>execution.ocid\<close> is truthy, when the
  infrastructure mapping lacks one of the \<open>REQUIRED_FIELDS\<close>, and when \<open>execution\<close> lacks
  \<open>source_folder\<close> or \<open>entrypoint\<close>. What is left is \<open>run\<close> on the path that creates a
  Job, from line 145 on: there the infrastructure mapping is changed in place and then
  handed to the library, and nothing is said here about what the configuration holds
  afterwards.
\<close>

theorem configuration_changes_only_in_run:
  "config (snd (init ext uri overwrite runtime_type kwargs s)) = config s
   \<and> config (snd (apply_df s)) = config s
   \<and> config (snd (cancel ext s)) = config s
   \<and> config (snd (delete ext s)) = config s
   \<and> config (snd (watch ext s)) = config s
   \<and> (execution_get ''ocid'' PNone s = Inr ocid \<and> truthy ocid \<longrightarrow>
          config (snd (run ext s)) = config s)
   \<and> (execution_get ''ocid'' PNone s = Inr ocid \<and> \<not> truthy ocid
        \<and> py_get (config s) ''infrastructure'' (PDict []) = Inr (PDict infra)
        \<and> (\<exists>k \<in> set REQUIRED_FIELDS. map_of infra k = None) \<longrightarrow>
          config (snd (run ext s)) = config s)
   \<and> (execution_get ''ocid'' PNone s = Inr ocid \<and> \<not> truthy ocid
        \<and> py_getitem (config s) ''execution'' = Inr (PDict ex)
        \<and> (map_of ex ''source_folder'' = None \<or> map_of ex ''entrypoint'' = None) \<longrightarrow>
          config (snd (run ext s)) = config s)"
proof (intro conjI impI)
  show "config (snd (init ext uri overwrite runtime_type kwargs s)) = config s"
    by (rule init_frame[where g = "\<lambda>c. c"])
  show "config (snd (apply_df s)) = config s"
    by (simp add: apply_df_def)
  show "config (snd (cancel ext s)) = config s"
    by (rule cancel_frame[where g = "\<lambda>c. c"])
  show "config (snd (delete ext s)) = config s"
    by (rule delete_frame[where g = "\<lambda>c. c"])
  show "config (snd (watch ext s)) = config s"
    by (rule watch_frame[where g = "\<lambda>c. c"])
next
  assume "execution_get ''ocid'' PNone s = Inr ocid \<and> truthy ocid"
  then show "config (snd (run ext s)) = config s"
    by (auto intro: run_existing_config)
next
  assume h: "execution_get ''ocid'' PNone s = Inr ocid \<and> \<not> truthy ocid
        \<and> py_get (config s) ''infrastructure'' (PDict []) = Inr (PDict infra)
        \<and> (\<exists>k \<in> set REQUIRED_FIELDS. map_of infra k = None)"
  have v: "validate_infra (PDict infra) =
      Inl (ValueError (missing_message [k \<leftarrow> REQUIRED_FIELDS. map_of infra k = None]))"
    using h by (simp add: validate_infra_mapping)
  have "config (snd (run_new ext s')) = config s'" if "config s' = config s" for s'
    using h that by (intro run_new_invalid_config[OF _ v]) simp
  then show "config (snd (run ext s)) = config s"
    using h by (intro run_falsy_config[of s ocid]) simp_all
next
  assume h: "execution_get ''ocid'' PNone s = Inr ocid \<and> \<not> truthy ocid
        \<and> py_getitem (config s) ''execution'' = Inr (PDict ex)
        \<and> (map_of ex ''source_folder'' = None \<or> map_of ex ''entrypoint'' = None)"
  have "config (snd (run_new ext s')) = config s'" if c: "config s' = config s" for s'
  proof -
    have "py_getitem (config s') ''execution'' = Inr (PDict ex)"
      using h c by simp
    then have "\<exists>e. script_path_spec s' = Inl e"
      using h by (auto simp add: script_path_spec_def execution_item_mapping split: option.splits)
    then show ?thesis
      by (auto intro: run_new_no_script_path_config)
  qed
  then show "config (snd (run ext s)) = config s"
    using h by (intro run_falsy_config[of s ocid]) simp_all
qed

theorem configuration_changes_only_in_run_witness:
  "config (snd (init responsive PNone (PBool False) PNone (PDict []) (fresh example_config))) =
     example_config
   \<and> config (snd (apply_df (fresh example_config))) = example_config
   \<and> config (snd (cancel responsive (fresh example_config))) = example_config
   \<and> config (snd (delete responsive (fresh example_config))) = example_config
   \<and> config (snd (watch responsive (fresh example_config))) = example_config
   \<and> truthy (PStr ''ocid1.dataflowapplication.oc1..aaaa'')
   \<and> config (snd (run responsive (fresh (ocid_config example_infrastructure)))) =
       ocid_config example_infrastructure
   \<and> \<not> truthy PNone
   \<and> config (snd (run responsive (fresh incomplete_config))) = incomplete_config
   \<and> map_of [(''source_folder'', PStr ''/a'')] ''entrypoint'' = None
   \<and> config (snd (run responsive (fresh no_entrypoint_config))) = no_entrypoint_config"
proof -
  have f: "config (fresh cfg) = cfg" for cfg
    by (simp add: fresh_def)
  have o1: "execution_get ''ocid'' PNone (fresh (ocid_config example_infrastructure)) =
      Inr (PStr ''ocid1.dataflowapplication.oc1..aaaa'')"
    by (simp add: execution_get_def fresh_def ocid_config_def)
  have t1: "truthy (PStr ''ocid1.dataflowapplication.oc1..aaaa'')" by simp
  have o2: "execution_get ''ocid'' PNone (fresh incomplete_config) = Inr PNone"
    by (simp add: execution_get_def fresh_def incomplete_config_def example_execution_def)
  have i2: "py_get (config (fresh incomplete_config)) ''infrastructure'' (PDict []) =
      Inr (PDict [(''compartment_id'', PStr ''c1''), (''executor_shape'', PStr ''e''),
                  (''logs_bucket_uri'', PStr ''b'')])"
    by (simp add: fresh_def incomplete_config_def)
  have m2: "\<exists>k \<in> set REQUIRED_FIELDS. map_of [(''compartment_id'', PStr ''c1''),
      (''executor_shape'', PStr ''e''), (''logs_bucket_uri'', PStr ''b'')] k = None"
    by (simp add: REQUIRED_FIELDS_def)
  have o3: "execution_get ''ocid'' PNone (fresh no_entrypoint_config) = Inr PNone"
    by (simp add: execution_get_def fresh_def no_entrypoint_config_def)
  have e3: "py_getitem (config (fresh no_entrypoint_config)) ''execution'' =
      Inr (PDict [(''source_folder'', PStr ''/a'')])"
    by (simp add: fresh_def no_entrypoint_config_def)
  have k3: "map_of [(''source_folder'', PStr ''/a'')] ''entrypoint'' = None"
    by simp
  note th0 = configuration_changes_only_in_run[where ext = responsive and uri = PNone
      and overwrite = "PBool False" and runtime_type = PNone and kwargs = "PDict []"
      and s = "fresh example_config"]
  note th1 = configuration_changes_only_in_run[where ext = responsive
      and s = "fresh (ocid_config example_infrastructure)"
      and ocid = "PStr ''ocid1.dataflowapplication.oc1..aaaa''"]
  note th2 = configuration_changes_only_in_run[where ext = responsive
      and s = "fresh incomplete_config" and ocid = PNone
      and infra = "[(''compartment_id'', PStr ''c1''), (''executor_shape'', PStr ''e''),
                    (''logs_bucket_uri'', PStr ''b'')]"]
  note th3 = configuration_changes_only_in_run[where ext = responsive
      and s = "fresh no_entrypoint_config" and ocid = PNone
      and ex = "[(''source_folder'', PStr ''/a'')]"]
  have a: "config (snd (init responsive PNone (PBool False) PNone (PDict []) (fresh example_config))) =
        example_config
      \<and> config (snd (apply_df (fresh example_config))) = example_config
      \<and> config (snd (cancel responsive (fresh example_config))) = example_config
      \<and> config (snd (delete responsive (fresh example_config))) = example_config
      \<and> config (snd (watch responsive (fresh example_config))) = example_config"
    using th0 by (simp add: f)
  have b: "config (snd (run responsive (fresh (ocid_config example_infrastructure)))) =
      ocid_config example_infrastructure"
    using th1 o1 t1 by (simp add: f)
  have c: "config (snd (run responsive (fresh incomplete_config))) = incomplete_config"
    using th2 o2 i2 m2 by (simp add: f)
  have d: "config (snd (run responsive (fresh no_entrypoint_config))) = no_entrypoint_config"
    using th3 o3 e3 k3 by (simp add: f)
  show ?thesis
    using a b c d by simp
qed

end
